theory Spec2Isabelle
  imports Complex_Main
begin

section \<open>Conventions of the embedding\<close>

text \<open>
  The development embeds parts of \<^verbatim>\<open>freqtrade/exchange/exchange.py\<close> (class
  \<^verbatim>\<open>Exchange\<close>). Python's unbounded \<^verbatim>\<open>int\<close> is \<open>int\<close>. Python's
  \<^verbatim>\<open>float\<close> is idealised as \<open>real\<close>: arithmetic is exact, so binary rounding
  error, infinities and NaN are outside the model unless a definition says otherwise
  (a table cell that may be NaN is a \<open>real option\<close>, an infinite bound is a constructor
  of its own). Every \<^verbatim>\<open>raise\<close> of the source is a value \<open>Inl e\<close> of a
  sum type; a division whose divisor is zero is \<open>Inl ZeroDivisionError\<close>, as Python
  raises there.
\<close>

datatype error =
    ConfigurationError
  | InvalidOrderException
  | OperationalException
  | ExchangeError
  | ValueError
  | KeyError
  | IndexError
  | UnboundLocalError
  | ZeroDivisionError
  | DDosProtection
  | TemporaryError
  | NotPaginatable
    \<comment> \<open>named by the specification only: no \<^verbatim>\<open>raise\<close> of the source constructs it\<close>

datatype TradingMode = SPOT | MARGIN | FUTURES

datatype MarginMode = CROSS | ISOLATED | NONE

text \<open>\<^verbatim>\<open>int(x)\<close> on a float truncates towards zero.\<close>

definition py_int :: "real \<Rightarrow> int" where
  "py_int x = (if 0 \<le> x then \<lfloor>x\<rfloor> else \<lceil>x\<rceil>)"

section \<open>Startup candles\<close>

text \<open>
  \<^verbatim>\<open>validate_required_startup_candles\<close>. The candle limit is the value returned by
  \<^verbatim>\<open>self.ohlcv_candle_limit(timeframe, ...)\<close>, the flag is
  \<^verbatim>\<open>self._ft_has["ohlcv_has_history"]\<close>. \<^verbatim>\<open>candle_count / candle_limit\<close> is
  Python's true division; \<^verbatim>\<open>%\<close> takes the sign of the divisor, as \<open>mod\<close> on
  \<open>int\<close> does. The warning that is logged for more than one call has no effect on
  the result.
\<close>

definition required_candle_call_count :: "int \<Rightarrow> int \<Rightarrow> int" where
  "required_candle_call_count candle_count candle_limit =
     py_int (real_of_int candle_count / real_of_int candle_limit
             + (if candle_count mod candle_limit = 0 then 0 else 1))"

definition validate_required_startup_candles :: "bool \<Rightarrow> int \<Rightarrow> int \<Rightarrow> error + int" where
  "validate_required_startup_candles ohlcv_has_history candle_limit startup_candles =
     (let candle_count = startup_candles + 1 in
      if candle_limit = 0 then Inl ZeroDivisionError
      else
        let n = required_candle_call_count candle_count candle_limit in
        if ohlcv_has_history then
          (if n > 5 then Inl ConfigurationError else Inr n)
        else if n > 1 then Inl ConfigurationError
        else Inr n)"

section \<open>Stop-limit rate\<close>

text \<open>
  \<^verbatim>\<open>_get_stop_limit_rate\<close>. \<^verbatim>\<open>order_types\<close> is a dictionary, of which only the
  key \<^verbatim>\<open>stoploss_on_exchange_limit_ratio\<close> is read, with the default 0.99. The side
  is a string: every side other than \<^verbatim>\<open>"sell"\<close> takes the buy branch.
\<close>

definition limit_price_pct :: "(string \<rightharpoonup> real) \<Rightarrow> real" where
  "limit_price_pct order_types =
     (case order_types ''stoploss_on_exchange_limit_ratio'' of
        None \<Rightarrow> 99 / 100
      | Some v \<Rightarrow> v)"

definition get_stop_limit_rate :: "real \<Rightarrow> (string \<rightharpoonup> real) \<Rightarrow> string \<Rightarrow> error + real" where
  "get_stop_limit_rate stop_price order_types side =
     (let pct = limit_price_pct order_types;
          limit_rate = (if side = ''sell'' then stop_price * pct
                        else stop_price * (2 - pct));
          bad_stop_price = (if side = ''sell'' then stop_price < limit_rate
                            else stop_price > limit_rate)
      in if bad_stop_price then Inl InvalidOrderException else Inr limit_rate)"

section \<open>Exchange state\<close>

text \<open>
  The attributes of an \<^verbatim>\<open>Exchange\<close> object that the embedded methods read. A
  leverage tier and a market are the dictionaries of the source with the keys that are
  read; \<^verbatim>\<open>limits_amount_min\<close> is \<^verbatim>\<open>market["limits"]["amount"]["min"]\<close>, and so
  on; \<^verbatim>\<open>futures_flag\<close> is \<^verbatim>\<open>market.get(self._ft_has["ccxt_futures_name"])\<close>.
  \<^verbatim>\<open>linear_contract\<close> and \<^verbatim>\<open>inverse_contract\<close> are the keys \<^verbatim>\<open>linear\<close> and
  \<^verbatim>\<open>inverse\<close>. \<^verbatim>\<open>exchange_has\<close> is the method of that name, \<^verbatim>\<open>optimize_runmode\<close> is
  \<^verbatim>\<open>self._config.get("runmode") in OPTIMIZE_MODES\<close>, \<^verbatim>\<open>amount_reserve_percent\<close> is
  \<^verbatim>\<open>self._config.get("amount_reserve_percent", DEFAULT_AMOUNT_RESERVE_PERCENT)\<close> (the
  constant is defined outside the source file), \<^verbatim>\<open>config_fee\<close> is
  \<^verbatim>\<open>self._config.get("fee")\<close>, \<^verbatim>\<open>trades_pagination\<close> is \<^verbatim>\<open>self._trades_pagination\<close>.
\<close>

record tier =
  minNotional :: real
  maxNotional :: real
  maintenanceMarginRate :: real
  maxLeverage :: real
  maintAmt :: "real option"

record market =
  base :: "string option"
  quote :: "string option"
  spot :: bool
  margin :: bool
  futures_flag :: bool
  market_type :: string
  linear_contract :: bool
  inverse_contract :: bool
  taker :: real
  contractSize :: "real option"
  precision_price :: "real option"
  limits_amount_min :: "real option"
  limits_amount_max :: "real option"
  limits_cost_min :: "real option"
  limits_cost_max :: "real option"
  limits_leverage_max :: "real option"

record exchange =
  trading_mode :: TradingMode
  margin_mode :: MarginMode
  markets :: "string \<rightharpoonup> market"
  leverage_tiers :: "string \<rightharpoonup> tier list"
  precisionMode :: int
  amount_reserve_percent :: real
  liquidation_buffer :: real
  config_fee :: "real option"
  dry_run :: bool
  optimize_runmode :: bool
  trades_pagination :: string
  exchange_has :: "string \<Rightarrow> bool"

section \<open>Maximum leverage\<close>

text \<open>
  \<^verbatim>\<open>get_max_leverage\<close>. The \<^verbatim>\<open>for\<close> loop over the tiers is \<open>scan_tiers\<close>, which
  threads the loop variables \<^verbatim>\<open>prior_max_lev\<close> and \<^verbatim>\<open>max_stake\<close> (unbound before
  the first iteration: \<open>None\<close>). \<^verbatim>\<open>prior_max_lev or tier["maxLeverage"]\<close> takes the
  tier's own leverage when the prior one is \<^verbatim>\<open>None\<close> or \<open>0\<close>. After the loop the
  source reads \<^verbatim>\<open>max_stake\<close> of the last iteration.
\<close>

datatype scan = Found real | Exhausted "real option"

definition prior_or :: "real option \<Rightarrow> real \<Rightarrow> real" where
  "prior_or prior_max_lev own =
     (case prior_max_lev of None \<Rightarrow> own | Some p \<Rightarrow> if p = 0 then own else p)"

fun scan_tiers :: "real \<Rightarrow> real option \<Rightarrow> real option \<Rightarrow> tier list \<Rightarrow> error + scan" where
  "scan_tiers stake_amount prior_max_lev max_stake [] = Inr (Exhausted max_stake)"
| "scan_tiers stake_amount prior_max_lev max_stake (t # ts) =
     (if prior_or prior_max_lev (maxLeverage t) = 0 then Inl ZeroDivisionError
      else if maxLeverage t = 0 then Inl ZeroDivisionError
      else
        let min_stake = minNotional t / prior_or prior_max_lev (maxLeverage t);
            max_stake' = maxNotional t / maxLeverage t
        in if min_stake \<le> stake_amount \<and> stake_amount \<le> max_stake'
           then Inr (Found (maxLeverage t))
           else scan_tiers stake_amount (Some (maxLeverage t)) (Some max_stake') ts)"

definition get_max_leverage :: "exchange \<Rightarrow> string \<Rightarrow> real option \<Rightarrow> error + real" where
  "get_max_leverage ex pair stake_amount =
     (if trading_mode ex = SPOT then Inr 1
      else if trading_mode ex = FUTURES then
        (case stake_amount of
           None \<Rightarrow> Inl OperationalException
         | Some stake \<Rightarrow>
            (case leverage_tiers ex pair of
               None \<Rightarrow> Inr 1
             | Some pair_tiers \<Rightarrow>
                 if stake = 0 then
                   (case pair_tiers of [] \<Rightarrow> Inl IndexError | t # _ \<Rightarrow> Inr (maxLeverage t))
                 else
                   (case scan_tiers stake None None pair_tiers of
                      Inl e \<Rightarrow> Inl e
                    | Inr (Found lev) \<Rightarrow> Inr lev
                    | Inr (Exhausted None) \<Rightarrow> Inl UnboundLocalError
                    | Inr (Exhausted (Some max_stake)) \<Rightarrow>
                        if stake > max_stake then Inl InvalidOrderException
                        else Inl OperationalException)))
      else
        (case markets ex pair of
           None \<Rightarrow> Inl KeyError
         | Some market \<Rightarrow>
            (case limits_leverage_max market of Some lev \<Rightarrow> Inr lev | None \<Rightarrow> Inr 1)))"

text \<open>
  The stake ranges as the specification words them: for each tier
  \<open>(min_notional / prior tier's max_leverage, max_notional / max_leverage, max_leverage)\<close>,
  the first tier divided by its own leverage.
\<close>

fun ranges_from :: "real \<Rightarrow> tier list \<Rightarrow> (real \<times> real \<times> real) list" where
  "ranges_from prior [] = []"
| "ranges_from prior (t # ts) =
     (minNotional t / prior, maxNotional t / maxLeverage t, maxLeverage t)
       # ranges_from (maxLeverage t) ts"

definition stake_ranges :: "tier list \<Rightarrow> (real \<times> real \<times> real) list" where
  "stake_ranges ts = (case ts of [] \<Rightarrow> [] | t # _ \<Rightarrow> ranges_from (maxLeverage t) ts)"

definition in_range :: "real \<Rightarrow> real \<times> real \<times> real \<Rightarrow> bool" where
  "in_range stake r = (fst r \<le> stake \<and> stake \<le> fst (snd r))"

definition tiers_ascending :: "tier list \<Rightarrow> bool" where
  "tiers_ascending ts \<longleftrightarrow>
     sorted (map maxNotional ts) \<and> sorted (rev (map maxLeverage ts))
     \<and> list_all (\<lambda>t. 0 < maxLeverage t) ts"

text \<open>The tiers of the specification's boundary scenario 6.\<close>

definition mk_tier :: "real \<Rightarrow> real \<Rightarrow> real \<Rightarrow> real \<Rightarrow> tier" where
  "mk_tier lo hi mmr lev =
     \<lparr>minNotional = lo, maxNotional = hi, maintenanceMarginRate = mmr,
      maxLeverage = lev, maintAmt = None\<rparr>"

definition example_tiers :: "tier list" where
  "example_tiers =
     [mk_tier 0 50000 (4 / 1000) 50, mk_tier 50000 250000 (5 / 1000) 20,
      mk_tier 250000 1000000 (1 / 100) 10]"

section \<open>Liquidation price\<close>

text \<open>
  \<^verbatim>\<open>get_maintenance_ratio_and_amt\<close> walks the tiers from the last to the first and
  takes the first whose \<^verbatim>\<open>minNotional\<close> is at most the notional value.
  \<^verbatim>\<open>dry_run_liquidation_price\<close> reads the market and the maintenance ratio before it
  looks at the modes, so their errors come first. \<^verbatim>\<open>fetch_positions\<close> calls the
  venue (\<^verbatim>\<open>self._api.fetch_positions\<close> with the mapping of its exceptions, a
  parameter here) unless the run is a dry run or the mode is not futures; of a position
  only \<^verbatim>\<open>liquidationPrice\<close> is read. \<^verbatim>\<open>leverage\<close> and \<^verbatim>\<open>open_trades\<close> are
  passed through and not read.
\<close>

record position =
  liquidationPrice :: "real option"

definition get_maintenance_ratio_and_amt ::
  "exchange \<Rightarrow> string \<Rightarrow> real \<Rightarrow> error + (real \<times> real option)" where
  "get_maintenance_ratio_and_amt ex pair notional_value =
     (if optimize_runmode ex \<or> exchange_has ex ''fetchLeverageTiers''
         \<or> exchange_has ex ''fetchMarketLeverageTiers''
      then
        (case leverage_tiers ex pair of
           None \<Rightarrow> Inl InvalidOrderException
         | Some pair_tiers \<Rightarrow>
            (case find (\<lambda>tier. notional_value \<ge> minNotional tier) (rev pair_tiers) of
               Some tier \<Rightarrow> Inr (maintenanceMarginRate tier, maintAmt tier)
             | None \<Rightarrow> Inl ExchangeError))
      else Inl ExchangeError)"

definition dry_run_liquidation_price ::
  "exchange \<Rightarrow> string \<Rightarrow> real \<Rightarrow> bool \<Rightarrow> real \<Rightarrow> real \<Rightarrow> real \<Rightarrow> real \<Rightarrow> 'tr list
    \<Rightarrow> error + real" where
  "dry_run_liquidation_price ex pair open_rate is_short amount stake_amount leverage
      wallet_balance open_trades =
     (case markets ex pair of
        None \<Rightarrow> Inl KeyError
      | Some market \<Rightarrow>
         (case get_maintenance_ratio_and_amt ex pair stake_amount of
            Inl e \<Rightarrow> Inl e
          | Inr (mm_ratio, _) \<Rightarrow>
             if trading_mode ex = FUTURES \<and> margin_mode ex = ISOLATED then
               if inverse_contract market then Inl OperationalException
               else if amount = 0 then Inl ZeroDivisionError
               else
                 let value = wallet_balance / amount;
                     mm_ratio_taker = mm_ratio + taker market
                 in if is_short then
                      (if 1 + mm_ratio_taker = 0 then Inl ZeroDivisionError
                       else Inr ((open_rate + value) / (1 + mm_ratio_taker)))
                    else
                      (if 1 - mm_ratio_taker = 0 then Inl ZeroDivisionError
                       else Inr ((open_rate - value) / (1 - mm_ratio_taker)))
             else Inl OperationalException))"

definition fetch_positions ::
  "exchange \<Rightarrow> (string \<Rightarrow> error + position list) \<Rightarrow> string \<Rightarrow> error + position list" where
  "fetch_positions ex api_fetch_positions pair =
     (if dry_run ex \<or> trading_mode ex \<noteq> FUTURES then Inr []
      else api_fetch_positions pair)"

definition get_liquidation_price ::
  "exchange \<Rightarrow> (string \<Rightarrow> error + position list) \<Rightarrow> string \<Rightarrow> real \<Rightarrow> bool \<Rightarrow> real \<Rightarrow> real
    \<Rightarrow> real \<Rightarrow> real \<Rightarrow> 'tr list \<Rightarrow> error + real option" where
  "get_liquidation_price ex api_fetch_positions pair open_rate is_short amount stake_amount
      leverage wallet_balance open_trades =
     (if trading_mode ex = SPOT then Inr None
      else if trading_mode ex \<noteq> FUTURES then Inl OperationalException
      else
        (case (if dry_run ex \<or> \<not> exchange_has ex ''fetchPositions'' then
                 (case dry_run_liquidation_price ex pair open_rate is_short amount stake_amount
                         leverage wallet_balance open_trades of
                    Inl e \<Rightarrow> Inl e
                  | Inr p \<Rightarrow> Inr (Some p))
               else
                 (case fetch_positions ex api_fetch_positions pair of
                    Inl e \<Rightarrow> Inl e
                  | Inr [] \<Rightarrow> Inr None
                  | Inr (pos # _) \<Rightarrow> Inr (liquidationPrice pos))) of
           Inl e \<Rightarrow> Inl e
         | Inr None \<Rightarrow> Inr None
         | Inr (Some liquidation_price) \<Rightarrow>
             let buffer_amount = \<bar>open_rate - liquidation_price\<bar> * liquidation_buffer ex;
                 liquidation_price_buffer =
                   (if is_short then liquidation_price - buffer_amount
                    else liquidation_price + buffer_amount)
             in Inr (Some (max liquidation_price_buffer 0))))"

section \<open>Dry-run orders\<close>

text \<open>
  Functions that the embedded methods call and that are defined outside
  \<^verbatim>\<open>exchange.py\<close> are the fields of \<open>collaborators\<close>:
  \<^verbatim>\<open>fetch_l2_order_book\<close> (a network call), the rounding and contract conversions of
  \<^verbatim>\<open>exchange_utils\<close> as the methods \<^verbatim>\<open>price_to_precision\<close>,
  \<^verbatim>\<open>amount_to_precision\<close>, \<^verbatim>\<open>_amount_to_contracts\<close> and
  \<^verbatim>\<open>_contracts_to_amount\<close> apply them to a pair, and \<^verbatim>\<open>calculate_fee\<close> of the
  venue library (its \<^verbatim>\<open>rate\<close>, with the mapping of its exceptions).

  An order book side is a list of \<open>(price, volume)\<close> levels. \<open>walk_book\<close> is the
  \<^verbatim>\<open>for ... else\<close> loop of \<^verbatim>\<open>get_dry_market_fill_price\<close> with its three loop
  variables; the equation for the empty list is the \<^verbatim>\<open>else\<close> clause, which runs
  when the loop ends without \<^verbatim>\<open>break\<close>. A dry-run order is the dictionary of the
  source; \<open>order_info_stopPrice\<close> is \<^verbatim>\<open>info["stopPrice"]\<close> and
  \<open>order_stop_price_prop\<close> the key named by \<^verbatim>\<open>_ft_has["stop_price_prop"]\<close>. The
  clock readings of \<^verbatim>\<open>dt_now()\<close> are parameters. \<^verbatim>\<open>create_dry_run_order\<close> returns
  the order and the updated \<^verbatim>\<open>_dry_run_open_orders\<close>.
\<close>

definition and_then :: "error + 'a \<Rightarrow> ('a \<Rightarrow> error + 'b) \<Rightarrow> error + 'b" where
  "and_then r f = (case r of Inl e \<Rightarrow> Inl e | Inr x \<Rightarrow> f x)"

record OrderBook =
  asks :: "(real \<times> real) list"
  bids :: "(real \<times> real) list"

record collaborators =
  fetch_l2_order_book :: "string \<Rightarrow> nat \<Rightarrow> error + OrderBook"
  price_to_precision :: "string \<Rightarrow> real \<Rightarrow> real"
  amount_to_precision :: "string \<Rightarrow> real \<Rightarrow> real"
  amount_to_contracts :: "string \<Rightarrow> real \<Rightarrow> real"
  contracts_to_amount :: "string \<Rightarrow> real \<Rightarrow> real"
  calculate_fee :: "string \<Rightarrow> string \<Rightarrow> string \<Rightarrow> real \<Rightarrow> real \<Rightarrow> string \<Rightarrow> error + real"

record order_fee =
  fee_currency :: string
  fee_cost :: real
  fee_rate :: real

record CcxtOrder =
  order_id :: string
  order_symbol :: string
  order_price :: real
  order_average :: real
  order_amount :: real
  order_cost :: real
  order_type :: string
  order_side :: string
  order_filled :: real
  order_remaining :: real
  order_datetime :: string
  order_timestamp :: int
  order_status :: string
  order_fee :: "order_fee option"
  order_info_stopPrice :: "real option"
  order_stop_price_prop :: "real option"
  ft_order_type :: "string option"

fun walk_book :: "real \<Rightarrow> real \<Rightarrow> real \<Rightarrow> (real \<times> real) list \<Rightarrow> real" where
  "walk_book remaining_amount filled_value book_entry_price [] =
     filled_value + remaining_amount * book_entry_price"
| "walk_book remaining_amount filled_value book_entry_price
     ((entry_price, book_entry_coin_volume) # book) =
     (if remaining_amount > 0 then
        (if remaining_amount < book_entry_coin_volume
         then filled_value + remaining_amount * entry_price
         else walk_book (remaining_amount - book_entry_coin_volume)
                (filled_value + book_entry_coin_volume * entry_price) entry_price book)
      else filled_value)"

definition book_side :: "string \<Rightarrow> OrderBook \<Rightarrow> (real \<times> real) list" where
  "book_side side ob = (if side = ''buy'' then asks ob else bids ob)"

definition get_dry_market_fill_price ::
  "exchange \<Rightarrow> collaborators \<Rightarrow> string \<Rightarrow> string \<Rightarrow> real \<Rightarrow> real \<Rightarrow> OrderBook option
    \<Rightarrow> error + real" where
  "get_dry_market_fill_price ex co pair side amount rate orderbook =
     (if exchange_has ex ''fetchL2OrderBook'' then
        (case (case orderbook of
                 None \<Rightarrow> fetch_l2_order_book co pair 20
               | Some ob \<Rightarrow> Inr ob) of
           Inl e \<Rightarrow> Inl e
         | Inr ob \<Rightarrow>
            let book = book_side side ob;
                slippage = 5 / 100;
                max_slippage_val =
                  rate * (if side = ''buy'' then 1 + slippage else 1 - slippage);
                filled_value = walk_book amount 0 0 book
            in if amount = 0 then Inl ZeroDivisionError
               else
                 let forecast_avg_filled_price = max filled_value 0 / amount;
                     clamped = (if side = ''buy''
                                then min forecast_avg_filled_price max_slippage_val
                                else max forecast_avg_filled_price max_slippage_val)
                 in Inr (price_to_precision co pair clamped))
      else Inr rate)"

definition dry_is_price_crossed ::
  "exchange \<Rightarrow> collaborators \<Rightarrow> string \<Rightarrow> string \<Rightarrow> real \<Rightarrow> OrderBook option \<Rightarrow> real
    \<Rightarrow> error + bool" where
  "dry_is_price_crossed ex co pair side limit orderbook offset =
     (if \<not> exchange_has ex ''fetchL2OrderBook'' then Inr True
      else
        (case (case orderbook of
                 None \<Rightarrow> fetch_l2_order_book co pair 1
               | Some ob \<Rightarrow> Inr ob) of
           Inl e \<Rightarrow> Inl e
         | Inr ob \<Rightarrow>
            if side = ''buy'' then
              (case asks ob of
                 [] \<Rightarrow> Inr False
               | (price, _) # _ \<Rightarrow> Inr (limit * (1 - offset) \<ge> price))
            else
              (case bids ob of
                 [] \<Rightarrow> Inr False
               | (price, _) # _ \<Rightarrow> Inr (limit * (1 + offset) \<le> price))))"

definition get_fee ::
  "exchange \<Rightarrow> collaborators \<Rightarrow> string \<Rightarrow> string \<Rightarrow> string \<Rightarrow> real \<Rightarrow> real \<Rightarrow> string
    \<Rightarrow> error + real" where
  "get_fee ex co symbol ordertype side amount price taker_or_maker =
     (let taker_or_maker' =
            (if ordertype \<noteq> [] \<and> ordertype = ''market'' then ''taker'' else taker_or_maker)
      in case (if dry_run ex then config_fee ex else None) of
           Some fee \<Rightarrow> Inr fee
         | None \<Rightarrow> calculate_fee co symbol ordertype side amount price taker_or_maker')"

definition get_pair_quote_currency :: "exchange \<Rightarrow> string \<Rightarrow> string" where
  "get_pair_quote_currency ex pair =
     (case markets ex pair of
        None \<Rightarrow> []
      | Some market \<Rightarrow> (case quote market of None \<Rightarrow> [] | Some q \<Rightarrow> q))"

definition add_dry_order_fee ::
  "exchange \<Rightarrow> collaborators \<Rightarrow> string \<Rightarrow> CcxtOrder \<Rightarrow> string \<Rightarrow> error + CcxtOrder" where
  "add_dry_order_fee ex co pair dry_order taker_or_maker =
     (case get_fee ex co pair [] [] 1 1 taker_or_maker of
        Inl e \<Rightarrow> Inl e
      | Inr fee \<Rightarrow>
          Inr (dry_order\<lparr>order_fee :=
                 Some \<lparr>fee_currency = get_pair_quote_currency ex pair,
                       fee_cost = order_cost dry_order * fee,
                       fee_rate = fee\<rparr>\<rparr>))"

definition check_dry_limit_order_filled ::
  "exchange \<Rightarrow> collaborators \<Rightarrow> CcxtOrder \<Rightarrow> bool \<Rightarrow> OrderBook option \<Rightarrow> error + CcxtOrder" where
  "check_dry_limit_order_filled ex co order' immediate orderbook =
     (if order_status order' \<noteq> ''closed'' \<and> order_type order' = ''limit''
         \<and> ft_order_type order' \<in> {None, Some []}
      then
        (case dry_is_price_crossed ex co (order_symbol order') (order_side order')
                (order_price order') orderbook 0 of
           Inl e \<Rightarrow> Inl e
         | Inr True \<Rightarrow>
             add_dry_order_fee ex co (order_symbol order')
               (order'\<lparr>order_status := ''closed'', order_filled := order_amount order',
                        order_remaining := 0\<rparr>)
               (if immediate then ''taker'' else ''maker'')
         | Inr False \<Rightarrow> Inr order')
      else Inr order')"

definition create_dry_run_order ::
  "exchange \<Rightarrow> collaborators \<Rightarrow> string \<Rightarrow> string \<Rightarrow> int \<Rightarrow> (string \<rightharpoonup> CcxtOrder)
    \<Rightarrow> string \<Rightarrow> string \<Rightarrow> string \<Rightarrow> real \<Rightarrow> real \<Rightarrow> real \<Rightarrow> bool
    \<Rightarrow> error + (CcxtOrder \<times> (string \<rightharpoonup> CcxtOrder))" where
  "create_dry_run_order ex co now_timestamp now_datetime now_ts dry_run_open_orders
      pair ordertype side amount rate leverage stop_loss =
     (let order_id' = ''dry_run_'' @ side @ ''_'' @ pair @ ''_'' @ now_timestamp;
          amount' = contracts_to_amount co pair
                      (amount_to_precision co pair (amount_to_contracts co pair amount));
          dry_order0 =
            \<lparr>order_id = order_id', order_symbol = pair, order_price = rate,
             order_average = rate, order_amount = amount', order_cost = amount' * rate,
             order_type = ordertype, order_side = side, order_filled = 0,
             order_remaining = amount', order_datetime = now_datetime,
             order_timestamp = now_ts, order_status = ''open'', order_fee = None,
             order_info_stopPrice = None, order_stop_price_prop = None,
             ft_order_type = None\<rparr>;
          dry_order1 =
            (if stop_loss then
               dry_order0\<lparr>order_info_stopPrice := Some (order_price dry_order0),
                          order_stop_price_prop := Some (order_price dry_order0),
                          ft_order_type := Some ''stoploss''\<rparr>
             else dry_order0)
      in and_then
           (if exchange_has ex ''fetchL2OrderBook''
            then map_sum id Some (fetch_l2_order_book co pair 20)
            else Inr None)
        (\<lambda>orderbook. and_then
           (if ordertype = ''limit'' \<and> orderbook \<noteq> None
            then dry_is_price_crossed ex co pair side rate orderbook (1 / 100)
            else Inr False)
        (\<lambda>crossed. and_then
           (let dry_order2 =
                  (if crossed then dry_order1\<lparr>order_type := ''market''\<rparr> else dry_order1)
            in if order_type dry_order2 = ''market''
                  \<and> ft_order_type dry_order2 \<in> {None, Some []}
               then and_then
                      (get_dry_market_fill_price ex co pair side amount rate orderbook)
                      (\<lambda>average.
                         add_dry_order_fee ex co pair
                           (dry_order2\<lparr>order_average := average,
                                       order_filled := amount',
                                       order_remaining := 0,
                                       order_status := ''closed'',
                                       order_cost := amount' * average\<rparr>)
                           ''taker'')
               else Inr dry_order2)
        (\<lambda>dry_order3. and_then
           (check_dry_limit_order_filled ex co dry_order3 True orderbook)
        (\<lambda>dry_order4.
           Inr (dry_order4, dry_run_open_orders(order_id dry_order4 \<mapsto> dry_order4)))))))"

text \<open>
  Modelled from the spec: \<^verbatim>\<open>price_to_precision\<close> of
  \<^verbatim>\<open>freqtrade.exchange.exchange_utils\<close>, which is not among the sources. Section 4.6
  of the specification gives the decimal-places model: the precision is an integer \<open>d\<close>
  and the rounded value is \<open>\<lfloor>x * 10 ^ d + 0.5 * sign\<rfloor> / 10 ^ d\<close>.
\<close>

definition round_decimal_places :: "nat \<Rightarrow> real \<Rightarrow> real" where
  "round_decimal_places d x = real_of_int \<lfloor>x * 10 ^ d + 1 / 2 * sgn x\<rfloor> / 10 ^ d"

text \<open>
  The fill as the specification words it: \<open>takes A book\<close> is the volume consumed at
  each level until \<open>A\<close> is used up, \<open>consumed_value\<close> the sum of price times consumed
  volume; \<open>slippage_clamp\<close> is the clamp to \<open>rate * (1 \<plusminus> 0.05)\<close>; \<open>last_price\<close> is
  the price of the deepest level (\<open>0\<close>, the initial value of the loop variable, for an
  empty side). A well-formed side has no negative price or volume.
\<close>

fun takes :: "real \<Rightarrow> (real \<times> real) list \<Rightarrow> real list" where
  "takes A [] = []"
| "takes A ((p, v) # book) = min v A # takes (A - min v A) book"

definition consumed_value :: "real \<Rightarrow> (real \<times> real) list \<Rightarrow> real" where
  "consumed_value A book = (\<Sum>((p, v), t) \<leftarrow> zip book (takes A book). p * t)"

definition book_ok :: "(real \<times> real) list \<Rightarrow> bool" where
  "book_ok book = list_all (\<lambda>(p, v). 0 \<le> p \<and> 0 \<le> v) book"

definition last_price :: "(real \<times> real) list \<Rightarrow> real" where
  "last_price book = (if book = [] then 0 else fst (last book))"

definition slippage_clamp :: "string \<Rightarrow> real \<Rightarrow> real \<Rightarrow> real" where
  "slippage_clamp side rate avg =
     (if side = ''buy'' then min avg (rate * (1 + 5 / 100)) else max avg (rate * (1 - 5 / 100)))"

section \<open>Stake amount limits\<close>















section \<open>Funding fees\<close>

text \<open>
  A data frame is the list of its rows. Of a candle frame the columns \<^verbatim>\<open>date\<close> and
  \<^verbatim>\<open>open\<close> are modelled, of the combined frame \<^verbatim>\<open>date\<close>, \<^verbatim>\<open>open_mark\<close> and
  \<^verbatim>\<open>open_fund\<close>; the other columns are carried along by the source and not read. A
  cell is a \<open>real option\<close> with \<open>None\<close> for NaN, which a left join writes where the
  right frame has no row. \<open>merge_inner\<close> and \<open>merge_left\<close> are
  \<^verbatim>\<open>mark_rates.merge(funding_rates, on="date", how=...)\<close>: each row of the left frame
  is paired with every row of the right frame of the same date. Arithmetic on cells
  propagates NaN; \<^verbatim>\<open>sum\<close> is Python's built-in, starting from \<open>0\<close>.
\<close>

record candle =
  candle_date :: int
  candle_open :: "real option"

record funding_mark_row =
  row_date :: int
  open_mark :: "real option"
  open_fund :: "real option"

definition merge_row :: "candle \<Rightarrow> real option \<Rightarrow> funding_mark_row" where
  "merge_row mark fund =
     \<lparr>row_date = candle_date mark, open_mark = candle_open mark, open_fund = fund\<rparr>"

definition merge_inner :: "candle list \<Rightarrow> candle list \<Rightarrow> funding_mark_row list" where
  "merge_inner mark_rates funding_rates =
     concat (map (\<lambda>m. map (\<lambda>f. merge_row m (candle_open f))
                          (filter (\<lambda>f. candle_date f = candle_date m) funding_rates))
                 mark_rates)"

definition merge_left :: "candle list \<Rightarrow> candle list \<Rightarrow> funding_mark_row list" where
  "merge_left mark_rates funding_rates =
     concat (map (\<lambda>m. case filter (\<lambda>f. candle_date f = candle_date m) funding_rates of
                         [] \<Rightarrow> [merge_row m None]
                       | fs \<Rightarrow> map (\<lambda>f. merge_row m (candle_open f)) fs)
                 mark_rates)"

definition fillna :: "real \<Rightarrow> real option \<Rightarrow> real option" where
  "fillna value cell = (case cell of None \<Rightarrow> Some value | Some v \<Rightarrow> Some v)"

definition combine_funding_and_mark ::
  "candle list \<Rightarrow> candle list \<Rightarrow> real option \<Rightarrow> funding_mark_row list" where
  "combine_funding_and_mark funding_rates mark_rates futures_funding_rate =
     (case futures_funding_rate of
        None \<Rightarrow> merge_inner mark_rates funding_rates
      | Some rate \<Rightarrow>
          if length funding_rates = 0 then
            map (\<lambda>m. merge_row m (Some rate)) mark_rates
          else
            map (\<lambda>row. row\<lparr>open_fund := fillna rate (open_fund row)\<rparr>)
              (merge_left mark_rates funding_rates))"

definition nan_mult :: "real option \<Rightarrow> real option \<Rightarrow> real option" where
  "nan_mult a b = (case (a, b) of (Some x, Some y) \<Rightarrow> Some (x * y) | _ \<Rightarrow> None)"

definition nan_add :: "real option \<Rightarrow> real option \<Rightarrow> real option" where
  "nan_add a b = (case (a, b) of (Some x, Some y) \<Rightarrow> Some (x + y) | _ \<Rightarrow> None)"

definition py_sum :: "real option list \<Rightarrow> real option" where
  "py_sum xs = foldl nan_add (Some 0) xs"

definition calculate_funding_fees ::
  "funding_mark_row list \<Rightarrow> real \<Rightarrow> bool \<Rightarrow> int \<Rightarrow> int \<Rightarrow> real" where
  "calculate_funding_fees df amount is_short open_date close_date =
     (let fees0 = Some 0;
          fees1 = (if df \<noteq> [] then
                     let df1 = filter (\<lambda>row. row_date row \<ge> open_date
                                             \<and> row_date row \<le> close_date) df
                     in py_sum (map (\<lambda>row. nan_mult (nan_mult (open_fund row) (open_mark row))
                                                 (Some amount)) df1)
                   else fees0);
          fees = (case fees1 of None \<Rightarrow> 0 | Some v \<Rightarrow> v)
      in if is_short then fees else - fees)"

text \<open>The number in a cell that is not NaN.\<close>

definition cell :: "real option \<Rightarrow> real" where
  "cell c = (case c of None \<Rightarrow> 0 | Some v \<Rightarrow> v)"

section \<open>Trade history\<close>

text \<open>
  \<^verbatim>\<open>_async_get_trade_history\<close> and its synchronous caller
  \<^verbatim>\<open>get_historic_trades\<close>. The two paginated pulls
  (\<^verbatim>\<open>_async_get_trade_history_time\<close>, \<^verbatim>\<open>_async_get_trade_history_id\<close>) talk to the
  venue and are parameters, as is the clock reading used when \<^verbatim>\<open>until\<close> is
  \<^verbatim>\<open>None\<close>.
\<close>

record 'r trade_pulls =
  history_time :: "string \<Rightarrow> int \<Rightarrow> int \<Rightarrow> error + (string \<times> 'r)"
  history_id :: "string \<Rightarrow> int \<Rightarrow> int \<Rightarrow> string option \<Rightarrow> error + (string \<times> 'r)"

definition async_get_trade_history ::
  "exchange \<Rightarrow> 'r trade_pulls \<Rightarrow> int \<Rightarrow> string \<Rightarrow> int \<Rightarrow> int option \<Rightarrow> string option
    \<Rightarrow> error + (string \<times> 'r)" where
  "async_get_trade_history ex pulls milliseconds pair since until from_id =
     (let until' = (case until of None \<Rightarrow> milliseconds | Some u \<Rightarrow> u)
      in if trades_pagination ex = ''time'' then history_time pulls pair since until'
         else if trades_pagination ex = ''id'' then
           history_id pulls pair since until' from_id
         else Inl OperationalException)"

definition get_historic_trades ::
  "exchange \<Rightarrow> 'r trade_pulls \<Rightarrow> int \<Rightarrow> string \<Rightarrow> int \<Rightarrow> int option \<Rightarrow> string option
    \<Rightarrow> error + (string \<times> 'r)" where
  "get_historic_trades ex pulls milliseconds pair since until from_id =
     (if \<not> exchange_has ex ''fetchTrades'' then Inl OperationalException
      else async_get_trade_history ex pulls milliseconds pair since until from_id)"

section \<open>A futures venue for the worked examples\<close>

text \<open>
  An isolated-margin futures venue in dry-run mode with one linear swap market, which
  carries the tiers above; the liquidation buffer is the default \<open>0.05\<close> of the source.
\<close>

definition example_market :: market where
  "example_market =
     \<lparr>base = Some ''BTC'', quote = Some ''USDT'', spot = False, margin = False,
      futures_flag = True, market_type = ''swap'', linear_contract = True, inverse_contract = False,
      taker = 5 / 10000, contractSize = Some 1, precision_price = Some (1 / 10),
      limits_amount_min = Some (1 / 1000), limits_amount_max = Some 1000,
      limits_cost_min = Some 5, limits_cost_max = Some 1000000,
      limits_leverage_max = None\<rparr>"

definition example_exchange :: exchange where
  "example_exchange =
     \<lparr>trading_mode = FUTURES, margin_mode = ISOLATED,
      markets = [''BTC/USDT:USDT'' \<mapsto> example_market],
      leverage_tiers = [''BTC/USDT:USDT'' \<mapsto> example_tiers],
      precisionMode = 4, amount_reserve_percent = 5 / 100, liquidation_buffer = 5 / 100,
      config_fee = None, dry_run = True, optimize_runmode = False,
      trades_pagination = ''time'', exchange_has = (\<lambda>endpoint. True)\<rparr>"

text \<open>
  The order book of the specification's boundary scenario 4 (with a bid side added), and
  collaborators for a venue with contract size 1, prices rounded to \<open>d\<close> decimal places,
  a taker fee of 0.05 % and a maker fee of 0.02 %.
\<close>

definition example_book :: OrderBook where
  "example_book = \<lparr>asks = [(10, 1), (11, 2), (12, 5)], bids = [(9, 1), (8, 2), (7, 5)]\<rparr>"

definition example_co :: "nat \<Rightarrow> OrderBook \<Rightarrow> collaborators" where
  "example_co d ob =
    \<lparr>fetch_l2_order_book = (\<lambda>pair depth. Inr ob),
     price_to_precision = (\<lambda>pair. round_decimal_places d),
     amount_to_precision = (\<lambda>pair x. x),
     amount_to_contracts = (\<lambda>pair x. x),
     contracts_to_amount = (\<lambda>pair x. x),
     calculate_fee = (\<lambda>symbol ordertype side amount price taker_or_maker.
        if taker_or_maker = ''taker'' then Inr (5 / 10000) else Inr (2 / 10000))\<rparr>"

text \<open>Mark-price and funding-rate candles; the funding table has no row at date 16.\<close>

definition example_mark :: "candle list" where
  "example_mark =
     [\<lparr>candle_date = 0, candle_open = Some 100\<rparr>, \<lparr>candle_date = 8, candle_open = Some 110\<rparr>,
      \<lparr>candle_date = 16, candle_open = Some 120\<rparr>, \<lparr>candle_date = 24, candle_open = Some 130\<rparr>]"

definition example_funding :: "candle list" where
  "example_funding =
     [\<lparr>candle_date = 0, candle_open = Some (1 / 1000)\<rparr>,
      \<lparr>candle_date = 8, candle_open = Some (2 / 1000)\<rparr>,
      \<lparr>candle_date = 24, candle_open = Some (- 1 / 1000)\<rparr>]"

text \<open>A funding table whose rate at date 16 is NaN.\<close>

definition nan_funding :: "candle list" where
  "nan_funding =
     [\<lparr>candle_date = 8, candle_open = Some (2 / 1000)\<rparr>,
      \<lparr>candle_date = 16, candle_open = None\<rparr>]"

section \<open>Theorems\<close>

subsection \<open>Startup candles\<close>

lemma py_int_nonneg: "0 \<le> x \<Longrightarrow> py_int x = \<lfloor>x\<rfloor>"
  by (simp add: py_int_def)

lemma required_candle_call_count_ceiling:
  assumes "0 \<le> c" and "0 < L"
  shows "required_candle_call_count c L = \<lceil>real_of_int c / real_of_int L\<rceil>"
proof -
  have q: "0 \<le> real_of_int c / real_of_int L"
    using assms by simp
  have fl: "\<lfloor>real_of_int c / real_of_int L\<rfloor> = c div L"
    by (rule floor_divide_of_int_eq)
  have ce: "\<lceil>real_of_int c / real_of_int L\<rceil> = - ((- c) div L)"
    by (rule ceiling_divide_eq_div)
  have neg: "(- c) div L = (if c mod L = 0 then - (c div L) else - (c div L) - 1)"
    using assms by (simp add: zdiv_zminus1_eq_if)
  show ?thesis
  proof (cases "c mod L = 0")
    case True
    then show ?thesis
      using q fl ce neg by (simp add: required_candle_call_count_def py_int_nonneg)
  next
    case False
    have "py_int (real_of_int c / real_of_int L + 1) = \<lfloor>real_of_int c / real_of_int L + 1\<rfloor>"
      using q by (intro py_int_nonneg) simp
    also have "\<dots> = c div L + 1"
      using fl by simp
    finally show ?thesis
      using False ce neg by (simp add: required_candle_call_count_def)
  qed
qed

text \<open>
  C1. For a startup candle count \<open>s \<ge> 0\<close> and a candle limit \<open>L > 0\<close> the number of
  calls is \<open>\<lceil>(s + 1) / L\<rceil>\<close>; on a venue with \<^verbatim>\<open>ohlcv_has_history\<close> a count
  above 5 is rejected with \<open>ConfigurationError\<close> and any other count is returned.
\<close>

theorem validate_required_startup_candles_history:
  assumes "0 \<le> s" and "0 < L"
  shows "required_candle_call_count (s + 1) L = \<lceil>(real_of_int s + 1) / real_of_int L\<rceil>
       \<and> validate_required_startup_candles True L s =
           (if \<lceil>(real_of_int s + 1) / real_of_int L\<rceil> > 5 then Inl ConfigurationError
            else Inr \<lceil>(real_of_int s + 1) / real_of_int L\<rceil>)"
proof -
  have "required_candle_call_count (s + 1) L = \<lceil>real_of_int (s + 1) / real_of_int L\<rceil>"
    using assms by (intro required_candle_call_count_ceiling) simp_all
  then have c: "required_candle_call_count (s + 1) L = \<lceil>(real_of_int s + 1) / real_of_int L\<rceil>"
    by simp
  show ?thesis
    using assms c by (simp add: validate_required_startup_candles_def Let_def)
qed

theorem validate_required_startup_candles_history_witness:
  "validate_required_startup_candles True 500 600 = Inr 2
   \<and> validate_required_startup_candles True 500 3000 = Inl ConfigurationError"
  using validate_required_startup_candles_history [of 600 500]
        validate_required_startup_candles_history [of 3000 500]
  by simp

subsection \<open>Stop-limit rate\<close>

text \<open>
  C2. Let \<open>r\<close> be the ratio that the dictionary \<^verbatim>\<open>order_types\<close> holds under the key
  \<^verbatim>\<open>stoploss_on_exchange_limit_ratio\<close>, whatever other entries it has, or 0.99 when it
  has no such key. The rate is \<open>p * r\<close> for a sell and \<open>p * (2 - r)\<close> for any other
  side, and \<open>InvalidOrderException\<close> is raised exactly when that rate is above the stop
  price (sell) or below it (buy); otherwise the rate is returned.
\<close>

theorem get_stop_limit_rate_spec:
  assumes "order_types ''stoploss_on_exchange_limit_ratio'' = Some r
           \<or> (order_types ''stoploss_on_exchange_limit_ratio'' = None \<and> r = 99 / 100)"
  shows "(get_stop_limit_rate p order_types ''sell'' = Inl InvalidOrderException
            \<longleftrightarrow> p < p * r)
       \<and> (\<not> p < p * r \<longrightarrow> get_stop_limit_rate p order_types ''sell'' = Inr (p * r))
       \<and> (side \<noteq> ''sell'' \<longrightarrow>
            (get_stop_limit_rate p order_types side = Inl InvalidOrderException
               \<longleftrightarrow> p * (2 - r) < p)
            \<and> (\<not> p * (2 - r) < p
               \<longrightarrow> get_stop_limit_rate p order_types side = Inr (p * (2 - r))))"
proof -
  have "limit_price_pct order_types = r"
    using assms by (auto simp: limit_price_pct_def)
  then show ?thesis
    by (simp add: get_stop_limit_rate_def Let_def)
qed

theorem get_stop_limit_rate_spec_witness:
  "get_stop_limit_rate 100
      [''stoploss'' \<mapsto> 1, ''stoploss_on_exchange_interval'' \<mapsto> 60,
       ''stoploss_on_exchange_limit_ratio'' \<mapsto> 101 / 100] ''sell''
     = Inl InvalidOrderException
   \<and> (100 :: real) * (101 / 100) = 101
   \<and> get_stop_limit_rate 100
        [''stoploss_on_exchange_limit_ratio'' \<mapsto> 98 / 100, ''stoploss'' \<mapsto> 1] ''sell''
       = Inr 98
   \<and> get_stop_limit_rate 100
        [''stoploss_on_exchange_limit_ratio'' \<mapsto> 98 / 100, ''stoploss'' \<mapsto> 1] ''buy''
       = Inr 102
   \<and> get_stop_limit_rate 100 [''stoploss'' \<mapsto> 1] ''sell'' = Inr 99
   \<and> get_stop_limit_rate 100 [''stoploss'' \<mapsto> 1] ''buy'' = Inr 101
   \<and> get_stop_limit_rate 100
        [''stoploss_on_exchange_limit_ratio'' \<mapsto> 101 / 100] ''buy''
       = Inl InvalidOrderException"
  using get_stop_limit_rate_spec
          [of "[''stoploss'' \<mapsto> 1, ''stoploss_on_exchange_interval'' \<mapsto> 60,
                ''stoploss_on_exchange_limit_ratio'' \<mapsto> 101 / 100]" "101 / 100" 100 "''buy''"]
        get_stop_limit_rate_spec
          [of "[''stoploss_on_exchange_limit_ratio'' \<mapsto> 98 / 100, ''stoploss'' \<mapsto> 1]"
              "98 / 100" 100 "''buy''"]
        get_stop_limit_rate_spec [of "[''stoploss'' \<mapsto> 1]" "99 / 100" 100 "''buy''"]
        get_stop_limit_rate_spec
          [of "[''stoploss_on_exchange_limit_ratio'' \<mapsto> 101 / 100]" "101 / 100" 100 "''buy''"]
  by simp

subsection \<open>Maximum leverage\<close>

lemma ranges_from_nonempty: "ranges_from p ts = [] \<longleftrightarrow> ts = []"
  by (cases ts) simp_all

lemma last_ranges_from:
  "ts \<noteq> [] \<Longrightarrow>
   fst (snd (last (ranges_from p ts))) = maxNotional (last ts) / maxLeverage (last ts)"
  by (induction ts arbitrary: p) (auto simp: ranges_from_nonempty)

lemma last_stake_ranges:
  "ts \<noteq> [] \<Longrightarrow>
   fst (snd (last (stake_ranges ts))) = maxNotional (last ts) / maxLeverage (last ts)"
  by (cases ts) (simp_all add: stake_ranges_def last_ranges_from del: ranges_from.simps)

lemma scan_tiers_step:
  assumes "maxLeverage t \<noteq> 0" and "prior_or pr (maxLeverage t) \<noteq> 0"
  shows "scan_tiers stake pr ms (t # ts) =
          (if in_range stake (minNotional t / prior_or pr (maxLeverage t),
                              maxNotional t / maxLeverage t, maxLeverage t)
           then Inr (Found (maxLeverage t))
           else scan_tiers stake (Some (maxLeverage t))
                  (Some (maxNotional t / maxLeverage t)) ts)"
  using assms by (simp add: Let_def in_range_def)

lemma scan_tiers_Some:
  assumes "\<forall>t\<in>set ts. maxLeverage t \<noteq> 0" and "p \<noteq> 0"
  shows "scan_tiers stake (Some p) ms ts =
          (case find (in_range stake) (ranges_from p ts) of
             Some r \<Rightarrow> Inr (Found (snd (snd r)))
           | None \<Rightarrow> Inr (Exhausted (if ts = [] then ms
                        else Some (maxNotional (last ts) / maxLeverage (last ts)))))"
  using assms
proof (induction ts arbitrary: p ms)
  case Nil
  show ?case by simp
next
  case (Cons t ts)
  have t: "maxLeverage t \<noteq> 0" and ts: "\<forall>t\<in>set ts. maxLeverage t \<noteq> 0"
    using Cons.prems by simp_all
  have p: "prior_or (Some p) (maxLeverage t) = p"
    using Cons.prems(2) by (simp add: prior_or_def)
  have step: "scan_tiers stake (Some p) ms (t # ts) =
          (if in_range stake (minNotional t / p, maxNotional t / maxLeverage t, maxLeverage t)
           then Inr (Found (maxLeverage t))
           else scan_tiers stake (Some (maxLeverage t))
                  (Some (maxNotional t / maxLeverage t)) ts)"
    using scan_tiers_step [of t "Some p" stake ms ts] t Cons.prems(2) p by simp
  show ?case
    unfolding step Cons.IH [OF ts t]
    by (cases "ts = []") (simp_all split: option.splits)
qed

lemma scan_tiers_None:
  assumes "\<forall>t\<in>set ts. maxLeverage t \<noteq> 0" and "ts \<noteq> []"
  shows "scan_tiers stake None None ts =
          (case find (in_range stake) (stake_ranges ts) of
             Some r \<Rightarrow> Inr (Found (snd (snd r)))
           | None \<Rightarrow> Inr (Exhausted (Some (maxNotional (last ts) / maxLeverage (last ts)))))"
proof (cases ts)
  case Nil
  with assms show ?thesis by simp
next
  case (Cons t ts')
  have t: "maxLeverage t \<noteq> 0" and ts': "\<forall>t\<in>set ts'. maxLeverage t \<noteq> 0"
    using assms Cons by simp_all
  have p: "prior_or None (maxLeverage t) = maxLeverage t"
    by (simp add: prior_or_def)
  have step: "scan_tiers stake None None (t # ts') =
          (if in_range stake (minNotional t / maxLeverage t, maxNotional t / maxLeverage t,
                              maxLeverage t)
           then Inr (Found (maxLeverage t))
           else scan_tiers stake (Some (maxLeverage t))
                  (Some (maxNotional t / maxLeverage t)) ts')"
    using scan_tiers_step [of t None stake None ts'] t p by simp
  show ?thesis
    unfolding Cons step scan_tiers_Some [OF ts' t]
    by (cases "ts' = []") (simp_all add: stake_ranges_def split: option.splits)
qed

lemma ranges_from_upper:
  "r \<in> set (ranges_from p ts) \<Longrightarrow> \<exists>t\<in>set ts. fst (snd r) = maxNotional t / maxLeverage t"
  by (induction ts arbitrary: p) auto

lemma ascending_no_match:
  assumes asc: "tiers_ascending ts" and "ts \<noteq> []"
    and pos: "0 \<le> stake" and above: "maxNotional (last ts) / maxLeverage (last ts) < stake"
  shows "find (in_range stake) (ranges_from p ts) = None"
proof -
  have bound: "maxNotional t / maxLeverage t < stake" if mem: "t \<in> set ts" for t
  proof -
    obtain i where i: "i < length ts" "ts ! i = t"
      using mem by (auto simp: in_set_conv_nth)
    let ?l = "last ts"
    have li: "?l = ts ! (length ts - 1)"
      using assms(2) by (simp add: last_conv_nth)
    have le: "i \<le> length ts - 1" using i by simp
    have n: "maxNotional t \<le> maxNotional ?l"
      using asc i le assms(2) sorted_nth_mono [of "map maxNotional ts" i "length ts - 1"]
      by (simp add: tiers_ascending_def li)
    have "rev (map maxLeverage ts) ! 0 \<le> rev (map maxLeverage ts) ! (length ts - 1 - i)"
      using asc i by (intro sorted_nth_mono) (simp_all add: tiers_ascending_def)
    then have l: "maxLeverage ?l \<le> maxLeverage t"
      using i assms(2) by (simp add: rev_nth li)
    have lp: "0 < maxLeverage ?l" and tp: "0 < maxLeverage t"
      using asc assms(2) mem by (simp_all add: tiers_ascending_def list_all_iff)
    show ?thesis
    proof (cases "0 \<le> maxNotional t")
      case True
      have "maxNotional t / maxLeverage t \<le> maxNotional t / maxLeverage ?l"
        using True l lp by (intro divide_left_mono) simp_all
      also have "\<dots> \<le> maxNotional ?l / maxLeverage ?l"
        using n lp by (intro divide_right_mono) simp_all
      finally show ?thesis using above by simp
    next
      case False
      then have "maxNotional t / maxLeverage t < 0"
        using tp by (simp add: divide_neg_pos)
      then show ?thesis using pos by simp
    qed
  qed
  have "\<not> in_range stake r" if r: "r \<in> set (ranges_from p ts)" for r
  proof -
    obtain t where "t \<in> set ts" and "fst (snd r) = maxNotional t / maxLeverage t"
      using ranges_from_upper [OF r] by blast
    then show ?thesis
      using bound [of t] by (simp add: in_range_def)
  qed
  then show ?thesis by (simp add: find_None_iff)
qed

text \<open>
  C3 (amended). On a futures venue, for a pair with a non-empty tier list whose leverages
  are not zero: a zero stake returns the first tier's leverage; any other stake returns
  the leverage of the first tier whose range \<open>[min_stake, max_stake]\<close> holds the stake;
  when no range holds it, a stake above the last \<open>max_stake\<close> raises
  \<open>InvalidOrderException\<close> (and \<open>OperationalException\<close> is raised otherwise). On
  ascending tiers a positive stake above the last \<open>max_stake\<close> is in no range, so it
  always raises \<open>InvalidOrderException\<close>.
\<close>

theorem get_max_leverage_scan:
  assumes "trading_mode ex = FUTURES" and "leverage_tiers ex pair = Some ts"
    and "ts \<noteq> []" and "\<forall>t\<in>set ts. maxLeverage t \<noteq> 0"
  shows "get_max_leverage ex pair (Some stake) =
           (if stake = 0 then Inr (maxLeverage (hd ts))
            else case find (in_range stake) (stake_ranges ts) of
                   Some r \<Rightarrow> Inr (snd (snd r))
                 | None \<Rightarrow>
                     if fst (snd (last (stake_ranges ts))) < stake
                     then Inl InvalidOrderException else Inl OperationalException)
       \<and> (tiers_ascending ts \<and> 0 < stake \<and> fst (snd (last (stake_ranges ts))) < stake
            \<longrightarrow> get_max_leverage ex pair (Some stake) = Inl InvalidOrderException)"
proof -
  let ?last = "maxNotional (last ts) / maxLeverage (last ts)"
  have lst: "fst (snd (last (stake_ranges ts))) = ?last"
    using assms(3) by (rule last_stake_ranges)
  have scan: "scan_tiers stake None None ts =
          (case find (in_range stake) (stake_ranges ts) of
             Some r \<Rightarrow> Inr (Found (snd (snd r)))
           | None \<Rightarrow> Inr (Exhausted (Some ?last)))"
    using assms(4) assms(3) by (rule scan_tiers_None)
  have zero: "get_max_leverage ex pair (Some 0) = Inr (maxLeverage (hd ts))"
    using assms(1-3) by (cases ts) (simp_all add: get_max_leverage_def)
  have nonzero: "get_max_leverage ex pair (Some stake) =
         (case find (in_range stake) (stake_ranges ts) of
            Some r \<Rightarrow> Inr (snd (snd r))
          | None \<Rightarrow> if ?last < stake then Inl InvalidOrderException
                    else Inl OperationalException)"
    if "stake \<noteq> 0"
    using that assms(1,2) by (simp add: get_max_leverage_def scan split: option.splits)
  have first: "get_max_leverage ex pair (Some stake) =
           (if stake = 0 then Inr (maxLeverage (hd ts))
            else case find (in_range stake) (stake_ranges ts) of
                   Some r \<Rightarrow> Inr (snd (snd r))
                 | None \<Rightarrow>
                     if fst (snd (last (stake_ranges ts))) < stake
                     then Inl InvalidOrderException else Inl OperationalException)"
    using zero nonzero by (simp add: lst)
  have second: "get_max_leverage ex pair (Some stake) = Inl InvalidOrderException"
    if asc: "tiers_ascending ts" and pos: "0 < stake" and above: "?last < stake"
  proof -
    obtain t ts' where ts: "ts = t # ts'"
      using assms(3) by (cases ts) auto
    have "find (in_range stake) (ranges_from (maxLeverage t) ts) = None"
      using asc assms(3) pos above by (intro ascending_no_match) simp_all
    then have "find (in_range stake) (stake_ranges ts) = None"
      by (simp add: stake_ranges_def ts del: ranges_from.simps)
    then show ?thesis
      using nonzero pos above by simp
  qed
  show ?thesis
    using first second by (simp add: lst)
qed

theorem get_max_leverage_scan_witness:
  "get_max_leverage example_exchange ''BTC/USDT:USDT'' (Some 0) = Inr 50
   \<and> get_max_leverage example_exchange ''BTC/USDT:USDT'' (Some 1000) = Inr 50
   \<and> get_max_leverage example_exchange ''BTC/USDT:USDT'' (Some 2000) = Inr 20
   \<and> get_max_leverage example_exchange ''BTC/USDT:USDT'' (Some 6000) = Inr 20
   \<and> get_max_leverage example_exchange ''BTC/USDT:USDT'' (Some 2000000)
       = Inl InvalidOrderException
   \<and> tiers_ascending example_tiers"
  using get_max_leverage_scan [of example_exchange "''BTC/USDT:USDT''" example_tiers 0]
        get_max_leverage_scan [of example_exchange "''BTC/USDT:USDT''" example_tiers 1000]
        get_max_leverage_scan [of example_exchange "''BTC/USDT:USDT''" example_tiers 2000]
        get_max_leverage_scan [of example_exchange "''BTC/USDT:USDT''" example_tiers 6000]
        get_max_leverage_scan [of example_exchange "''BTC/USDT:USDT''" example_tiers 2000000]
  by (simp add: example_exchange_def example_tiers_def mk_tier_def stake_ranges_def
        in_range_def tiers_ascending_def)

text \<open>
  The claim as stated has stake 2000 return 50 on the example tiers. The first tier ends
  at stake \<open>50000 / 50 = 1000\<close>, so 2000 lies in the second tier's range
  \<open>[1000, 12500]\<close> and the leverage returned is 20.
\<close>

theorem get_max_leverage_2k_counterexample:
  "get_max_leverage example_exchange ''BTC/USDT:USDT'' (Some 2000) = Inr 20
   \<and> get_max_leverage example_exchange ''BTC/USDT:USDT'' (Some 2000) \<noteq> Inr 50"
  by (simp add: get_max_leverage_def example_exchange_def example_tiers_def mk_tier_def
        prior_or_def Let_def)

subsection \<open>Liquidation price\<close>

text \<open>
  C4 (amended). For an isolated-margin futures position on a market \<open>m\<close> with
  maintenance margin ratio \<open>mmr\<close>, taker fee \<open>taker m\<close> and amount \<open>a > 0\<close>: an
  inverse contract raises \<open>OperationalException\<close>; on a linear contract the estimate is
  \<open>(rate + w / a) / (1 + mmr + taker m)\<close> for a short and
  \<open>(rate - w / a) / (1 - mmr - taker m)\<close> for a long (the divisor not being zero); and
  \<^verbatim>\<open>get_liquidation_price\<close> subtracts the buffer \<open>\<bar>rate - liq\<bar> * liquidation_buffer\<close>
  from a short's estimate and adds it to a long's, then clamps the result below at 0.
\<close>

theorem liquidation_price_isolated:
  assumes "trading_mode ex = FUTURES" and "margin_mode ex = ISOLATED"
    and "markets ex pair = Some m"
    and "get_maintenance_ratio_and_amt ex pair stake = Inr (mmr, amt)"
    and "0 < a"
  shows "(inverse_contract m \<longrightarrow>
            dry_run_liquidation_price ex pair rate is_short a stake lev w tr
              = Inl OperationalException)
       \<and> (\<not> inverse_contract m \<and> 1 + mmr + taker m \<noteq> 0 \<longrightarrow>
            dry_run_liquidation_price ex pair rate True a stake lev w tr
              = Inr ((rate + w / a) / (1 + mmr + taker m)))
       \<and> (\<not> inverse_contract m \<and> 1 - mmr - taker m \<noteq> 0 \<longrightarrow>
            dry_run_liquidation_price ex pair rate False a stake lev w tr
              = Inr ((rate - w / a) / (1 - mmr - taker m)))
       \<and> (dry_run ex
            \<and> dry_run_liquidation_price ex pair rate is_short a stake lev w tr = Inr liq \<longrightarrow>
            get_liquidation_price ex api pair rate is_short a stake lev w tr =
              Inr (Some (max (if is_short
                              then liq - \<bar>rate - liq\<bar> * liquidation_buffer ex
                              else liq + \<bar>rate - liq\<bar> * liquidation_buffer ex) 0)))"
  using assms
  by (simp add: dry_run_liquidation_price_def get_liquidation_price_def Let_def
        algebra_simps)

theorem liquidation_price_isolated_witness:
  "dry_run_liquidation_price (example_exchange\<lparr>markets :=
        [''BTC/USDT:USDT'' \<mapsto> example_market\<lparr>inverse_contract := True\<rparr>]\<rparr>)
      ''BTC/USDT:USDT'' 100 True 1 100 1 (1009 / 10) ([] :: unit list)
     = Inl OperationalException
   \<and> dry_run_liquidation_price example_exchange ''BTC/USDT:USDT'' 100 True 1 100 1
        (1009 / 10) ([] :: unit list) = Inr 200
   \<and> dry_run_liquidation_price example_exchange ''BTC/USDT:USDT'' 100 False 1 100 1
        (2009 / 40) ([] :: unit list) = Inr 50
   \<and> get_liquidation_price example_exchange (\<lambda>p. Inr []) ''BTC/USDT:USDT'' 100 True 1 100 1
        (1009 / 10) ([] :: unit list) = Inr (Some 195)
   \<and> get_liquidation_price example_exchange (\<lambda>p. Inr []) ''BTC/USDT:USDT'' 100 False 1 100 1
        (2009 / 40) ([] :: unit list) = Inr (Some (105 / 2))"
proof -
  have mm: "get_maintenance_ratio_and_amt ex ''BTC/USDT:USDT'' 100 = Inr (4 / 1000, None)"
    if "leverage_tiers ex = leverage_tiers example_exchange"
      and "exchange_has ex = exchange_has example_exchange" for ex
    using that
    by (simp add: get_maintenance_ratio_and_amt_def example_exchange_def example_tiers_def
          mk_tier_def)
  note inv = liquidation_price_isolated
      [of "example_exchange\<lparr>markets := [''BTC/USDT:USDT'' \<mapsto> example_market\<lparr>inverse_contract := True\<rparr>]\<rparr>"
          "''BTC/USDT:USDT''" "example_market\<lparr>inverse_contract := True\<rparr>" 100 "4 / 1000" None 1
          100 True 1 "1009 / 10" "[] :: unit list" 0 "\<lambda>p. Inr []"]
  note short = liquidation_price_isolated
      [of example_exchange "''BTC/USDT:USDT''" example_market 100 "4 / 1000" None 1
          100 True 1 "1009 / 10" "[] :: unit list" 200 "\<lambda>p. Inr []"]
  note long = liquidation_price_isolated
      [of example_exchange "''BTC/USDT:USDT''" example_market 100 "4 / 1000" None 1
          100 False 1 "2009 / 40" "[] :: unit list" 50 "\<lambda>p. Inr []"]
  show ?thesis
    using inv short long mm
    by (simp add: example_exchange_def example_market_def)
qed

text \<open>
  The claim as stated has the buffer move the returned value away from zero in both
  directions. For a short the buffer is subtracted: the estimate 200 is returned as 195,
  nearer to zero.
\<close>

theorem liquidation_buffer_short_counterexample:
  "dry_run_liquidation_price example_exchange ''BTC/USDT:USDT'' 100 True 1 100 1
      (1009 / 10) ([] :: unit list) = Inr 200
   \<and> get_liquidation_price example_exchange (\<lambda>p. Inr []) ''BTC/USDT:USDT'' 100 True 1 100 1
        (1009 / 10) ([] :: unit list) = Inr (Some 195)
   \<and> \<bar>195 :: real\<bar> < \<bar>200\<bar>"
  by (simp add: get_liquidation_price_def dry_run_liquidation_price_def
        get_maintenance_ratio_and_amt_def example_exchange_def example_market_def
        example_tiers_def mk_tier_def Let_def)



subsection \<open>Dry-run market fill\<close>

lemma consumed_value_Nil: "consumed_value A [] = 0"
  by (simp add: consumed_value_def)

lemma consumed_value_Cons:
  "consumed_value A ((p, v) # book) = p * min v A + consumed_value (A - min v A) book"
  by (simp add: consumed_value_def)

lemma book_ok_Cons: "book_ok ((p, v) # book) \<longleftrightarrow> 0 \<le> p \<and> 0 \<le> v \<and> book_ok book"
  by (simp add: book_ok_def)

lemma takes_zero: "book_ok book \<Longrightarrow> sum_list (takes 0 book) = 0"
  by (induction book) (auto simp: book_ok_Cons min_def)

lemma consumed_value_zero: "book_ok book \<Longrightarrow> consumed_value 0 book = 0"
  by (induction book) (auto simp: book_ok_Cons consumed_value_Nil consumed_value_Cons min_def)

lemma consumed_value_nonneg: "book_ok book \<Longrightarrow> 0 \<le> A \<Longrightarrow> 0 \<le> consumed_value A book"
proof (induction book arbitrary: A)
  case Nil
  then show ?case by (simp add: consumed_value_Nil)
next
  case (Cons e book)
  obtain p v where e: "e = (p, v)" by (cases e)
  have ok: "0 \<le> p" "0 \<le> v" "book_ok book"
    using Cons.prems(1) by (simp_all add: e book_ok_Cons)
  have "0 \<le> consumed_value (A - min v A) book"
    using ok Cons.prems(2) by (intro Cons.IH) simp_all
  moreover have "0 \<le> p * min v A"
    using ok Cons.prems(2) by simp
  ultimately show ?case by (simp add: e consumed_value_Cons)
qed

lemma takes_sum:
  "book_ok book \<Longrightarrow> 0 \<le> A \<Longrightarrow> A \<le> sum_list (map snd book) \<Longrightarrow> sum_list (takes A book) = A"
proof (induction book arbitrary: A)
  case Nil
  then show ?case by simp
next
  case (Cons e book)
  obtain p v where e: "e = (p, v)" by (cases e)
  have ok: "0 \<le> v" "book_ok book"
    using Cons.prems(1) by (simp_all add: e book_ok_Cons)
  show ?case
  proof (cases "A < v")
    case True
    then show ?thesis using ok by (simp add: e takes_zero)
  next
    case False
    then have "sum_list (takes (A - v) book) = A - v"
      using ok Cons.prems by (intro Cons.IH) (simp_all add: e)
    then show ?thesis using False by (simp add: e min_def)
  qed
qed

lemma walk_book_enough:
  "book_ok book \<Longrightarrow> 0 \<le> A \<Longrightarrow> A \<le> sum_list (map snd book) \<Longrightarrow>
   walk_book A filled pr book = filled + consumed_value A book"
proof (induction book arbitrary: A filled pr)
  case Nil
  then show ?case by (simp add: consumed_value_Nil)
next
  case (Cons e book)
  obtain p v where e: "e = (p, v)" by (cases e)
  have ok: "0 \<le> p" "0 \<le> v" "book_ok book"
    using Cons.prems(1) by (simp_all add: e book_ok_Cons)
  show ?case
  proof (cases "0 < A")
    case False
    then have "A = 0" using Cons.prems(2) by simp
    then show ?thesis using ok consumed_value_zero [of "e # book"] Cons.prems(1)
      by (simp add: e)
  next
    case pos: True
    show ?thesis
    proof (cases "A < v")
      case True
      then show ?thesis
        using pos ok by (simp add: e consumed_value_Cons consumed_value_zero mult.commute)
    next
      case False
      then have "walk_book (A - v) (filled + v * p) p book
                   = filled + v * p + consumed_value (A - v) book"
        using ok Cons.prems by (intro Cons.IH) (simp_all add: e)
      then show ?thesis
        using pos False by (simp add: e consumed_value_Cons min_def mult.commute)
    qed
  qed
qed

lemma book_volume_nonneg: "book_ok book \<Longrightarrow> 0 \<le> sum_list (map snd book)"
  by (induction book) (auto simp: book_ok_Cons)

lemma book_value_nonneg: "book_ok book \<Longrightarrow> 0 \<le> (\<Sum>(p, v) \<leftarrow> book. p * v)"
  by (induction book) (auto simp: book_ok_Cons)

lemma last_price_nonneg: "book_ok book \<Longrightarrow> 0 \<le> last_price book"
  by (induction book) (auto simp: book_ok_Cons last_price_def)

lemma walk_book_short:
  "book_ok book \<Longrightarrow> sum_list (map snd book) < A \<Longrightarrow>
   walk_book A filled pr book =
     filled + (\<Sum>(p, v) \<leftarrow> book. p * v)
       + (A - sum_list (map snd book)) * (if book = [] then pr else fst (last book))"
proof (induction book arbitrary: A filled pr)
  case Nil
  then show ?case by simp
next
  case (Cons e book)
  obtain p v where e: "e = (p, v)" by (cases e)
  have ok: "0 \<le> p" "0 \<le> v" "book_ok book"
    using Cons.prems(1) by (simp_all add: e book_ok_Cons)
  have rest: "0 \<le> sum_list (map snd book)"
    using ok(3) by (rule book_volume_nonneg)
  have lt: "sum_list (map snd book) < A - v" and pos: "0 < A" and ge: "\<not> A < v"
    using Cons.prems(2) ok rest by (simp_all add: e)
  have IH: "walk_book (A - v) (filled + v * p) p book =
          filled + v * p + (\<Sum>(p, v) \<leftarrow> book. p * v)
            + (A - v - sum_list (map snd book)) * (if book = [] then p else fst (last book))"
    using ok(3) lt by (rule Cons.IH)
  have step: "walk_book A filled pr (e # book) = walk_book (A - v) (filled + v * p) p book"
    using pos ge by (simp add: e)
  show ?case
  proof (cases "book = []")
    case True
    then show ?thesis unfolding step IH by (simp add: e algebra_simps)
  next
    case False
    then show ?thesis unfolding step IH by (simp add: e algebra_simps)
  qed
qed

lemma get_dry_market_fill_price_walk:
  assumes "exchange_has ex ''fetchL2OrderBook''" and "A \<noteq> 0"
  shows "get_dry_market_fill_price ex co pair side A r (Some ob) =
           Inr (price_to_precision co pair
                  (slippage_clamp side r (max (walk_book A 0 0 (book_side side ob)) 0 / A)))"
  using assms by (simp add: get_dry_market_fill_price_def slippage_clamp_def Let_def)

text \<open>
  C5 (amended). With an order book, an amount \<open>A > 0\<close> and enough volume on the walked
  side, which is the asks for a buy and the bids for a sell (any other side), the fill
  price is the sum of price times consumed volume, the consumed volumes adding up to
  \<open>A\<close>, divided by \<open>A\<close>, clamped to at most \<open>r * 1.05\<close> for a buy and to at least
  \<open>r * 0.95\<close> for a sell, and the clamped value is rounded by
  \<^verbatim>\<open>price_to_precision\<close> before it is returned. A market order that is not a stop
  loss is closed and its fee is computed from
  \<^verbatim>\<open>get_fee(pair, taker_or_maker="taker")\<close>.
\<close>

theorem dry_market_fill_price_enough:
  assumes "exchange_has ex ''fetchL2OrderBook''" and "0 < A"
  shows "(book_ok (asks ob) \<and> A \<le> sum_list (map snd (asks ob)) \<longrightarrow>
            get_dry_market_fill_price ex co pair ''buy'' A r (Some ob) =
              Inr (price_to_precision co pair
                     (min (consumed_value A (asks ob) / A) (r * (105 / 100))))
            \<and> sum_list (takes A (asks ob)) = A)
       \<and> (side \<noteq> ''buy'' \<and> book_ok (bids ob) \<and> A \<le> sum_list (map snd (bids ob)) \<longrightarrow>
            get_dry_market_fill_price ex co pair side A r (Some ob) =
              Inr (price_to_precision co pair
                     (max (consumed_value A (bids ob) / A) (r * (95 / 100))))
            \<and> sum_list (takes A (bids ob)) = A)
       \<and> (create_dry_run_order ex co ts dt n oo pair ''market'' side A r lev False
             = Inr (ord, oo') \<longrightarrow>
           order_status ord = ''closed''
           \<and> (\<exists>f. get_fee ex co pair [] [] 1 1 ''taker'' = Inr f
                \<and> order_fee ord = Some \<lparr>fee_currency = get_pair_quote_currency ex pair,
                                         fee_cost = order_cost ord * f, fee_rate = f\<rparr>))"
proof -
  have price: "get_dry_market_fill_price ex co pair s A r (Some ob) =
           Inr (price_to_precision co pair
                  (slippage_clamp s r (consumed_value A (book_side s ob) / A)))"
    if ok: "book_ok (book_side s ob)" and vol: "A \<le> sum_list (map snd (book_side s ob))"
    for s
  proof -
    let ?b = "book_side s ob"
    have w: "walk_book A 0 0 ?b = consumed_value A ?b"
      using walk_book_enough [of ?b A 0 0] assms ok vol by simp
    have nn: "0 \<le> consumed_value A ?b"
      using assms ok by (intro consumed_value_nonneg) simp_all
    have "get_dry_market_fill_price ex co pair s A r (Some ob) =
             Inr (price_to_precision co pair
                    (slippage_clamp s r (max (walk_book A 0 0 ?b) 0 / A)))"
      using assms(1,2) by (intro get_dry_market_fill_price_walk) simp_all
    then show ?thesis
      unfolding w using nn by (simp add: max_absorb1)
  qed
  have buy: "get_dry_market_fill_price ex co pair ''buy'' A r (Some ob) =
              Inr (price_to_precision co pair
                     (min (consumed_value A (asks ob) / A) (r * (105 / 100))))
            \<and> sum_list (takes A (asks ob)) = A"
    if "book_ok (asks ob)" and "A \<le> sum_list (map snd (asks ob))"
    using price [of "''buy''"] takes_sum [of "asks ob" A] that assms(2)
    by (simp add: book_side_def slippage_clamp_def)
  have sell: "get_dry_market_fill_price ex co pair side A r (Some ob) =
              Inr (price_to_precision co pair
                     (max (consumed_value A (bids ob) / A) (r * (95 / 100))))
            \<and> sum_list (takes A (bids ob)) = A"
    if "side \<noteq> ''buy''" and "book_ok (bids ob)" and "A \<le> sum_list (map snd (bids ob))"
    using price [of side] takes_sum [of "bids ob" A] that assms(2)
    by (simp add: book_side_def slippage_clamp_def)
  have fee: "order_status ord = ''closed''
           \<and> (\<exists>f. get_fee ex co pair [] [] 1 1 ''taker'' = Inr f
                \<and> order_fee ord = Some \<lparr>fee_currency = get_pair_quote_currency ex pair,
                                         fee_cost = order_cost ord * f, fee_rate = f\<rparr>)"
    if "create_dry_run_order ex co ts dt n oo pair ''market'' side A r lev False
          = Inr (ord, oo')"
    using that
    by (auto simp: create_dry_run_order_def and_then_def add_dry_order_fee_def
          check_dry_limit_order_filled_def Let_def split: sum.splits if_splits)
  show ?thesis
    using buy sell fee by blast
qed

theorem dry_market_fill_price_enough_witness:
  "get_dry_market_fill_price example_exchange (example_co 2 example_book) ''BTC/USDT:USDT''
      ''buy'' 3 11 (Some example_book) = Inr (1067 / 100)
   \<and> consumed_value 3 (asks example_book) / 3 = 32 / 3
   \<and> get_dry_market_fill_price example_exchange (example_co 2 example_book) ''BTC/USDT:USDT''
       ''sell'' 3 8 (Some example_book) = Inr (833 / 100)
   \<and> consumed_value 3 (bids example_book) / 3 = 25 / 3
   \<and> get_fee example_exchange (example_co 2 example_book) ''BTC/USDT:USDT'' [] [] 1 1 ''taker''
       = Inr (5 / 10000)
   \<and> (\<exists>ord oo'.
        create_dry_run_order example_exchange (example_co 2 example_book) ''1.5'' ''now'' 1500
          Map.empty ''BTC/USDT:USDT'' ''market'' ''buy'' 3 11 1 False = Inr (ord, oo')
        \<and> order_status ord = ''closed''
        \<and> order_fee ord = Some \<lparr>fee_currency = ''USDT'', fee_cost = 3201 / 200000,
                                 fee_rate = 5 / 10000\<rparr>)"
proof -
  let ?ord = "\<lparr>order_id = ''dry_run_buy_BTC/USDT:USDT_1.5'',
         order_symbol = ''BTC/USDT:USDT'', order_price = 11,
         order_average = 1067 / 100, order_amount = 3,
         order_cost = 3201 / 100, order_type = ''market'',
         order_side = ''buy'', order_filled = 3, order_remaining = 0,
         order_datetime = ''now'', order_timestamp = 1500,
         order_status = ''closed'',
         order_fee = Some \<lparr>fee_currency = ''USDT'', fee_cost = 3201 / 200000,
                            fee_rate = 5 / 10000\<rparr>,
         order_info_stopPrice = None, order_stop_price_prop = None,
         ft_order_type = None\<rparr>"
  have fee: "get_fee example_exchange (example_co 2 example_book) ''BTC/USDT:USDT'' [] [] 1 1
               ''taker'' = Inr (5 / 10000)"
    by (simp add: get_fee_def example_exchange_def example_co_def)
  have quote: "get_pair_quote_currency example_exchange ''BTC/USDT:USDT'' = ''USDT''"
    by (simp add: get_pair_quote_currency_def example_exchange_def example_market_def)
  have price: "get_dry_market_fill_price example_exchange (example_co 2 example_book)
        ''BTC/USDT:USDT'' ''buy'' 3 11 (Some example_book) = Inr (1067 / 100)"
    by (simp add: get_dry_market_fill_price_def book_side_def example_exchange_def
          example_co_def example_book_def round_decimal_places_def Let_def)
  have has: "exchange_has example_exchange ''fetchL2OrderBook''"
    by (simp add: example_exchange_def)
  have fetch: "fetch_l2_order_book (example_co 2 example_book) ''BTC/USDT:USDT'' 20
                 = Inr example_book"
    by (simp add: example_co_def)
  have conv: "contracts_to_amount (example_co 2 example_book) ''BTC/USDT:USDT''
                (amount_to_precision (example_co 2 example_book) ''BTC/USDT:USDT''
                   (amount_to_contracts (example_co 2 example_book) ''BTC/USDT:USDT'' 3)) = 3"
    by (simp add: example_co_def)
  have create: "create_dry_run_order example_exchange (example_co 2 example_book) ''1.5''
          ''now'' 1500 Map.empty ''BTC/USDT:USDT'' ''market'' ''buy'' 3 11 1 False
        = Inr (?ord, [''dry_run_buy_BTC/USDT:USDT_1.5'' \<mapsto> ?ord])"
    by (simp add: create_dry_run_order_def and_then_def add_dry_order_fee_def
          check_dry_limit_order_filled_def has fetch conv fee quote price Let_def)
  have cv: "consumed_value 3 (asks example_book) / 3 = 32 / 3"
      "consumed_value 3 (bids example_book) / 3 = 25 / 3"
    by (simp_all add: consumed_value_def example_book_def)
  note inst = dry_market_fill_price_enough
      [where ex = example_exchange and A = 3 and ob = example_book
         and co = "example_co 2 example_book" and pair = "''BTC/USDT:USDT''"
         and ts = "''1.5''" and dt = "''now''" and n = 1500 and oo = Map.empty and lev = 1
         and ord = ?ord and oo' = "[''dry_run_buy_BTC/USDT:USDT_1.5'' \<mapsto> ?ord]"]
  note buy = inst [where side = "''buy''" and r = 11]
  note sell = inst [where side = "''sell''" and r = 8]
  have hyps: "book_ok (asks example_book)" "3 \<le> sum_list (map snd (asks example_book))"
      "book_ok (bids example_book)" "3 \<le> sum_list (map snd (bids example_book))"
    by (simp_all add: book_ok_def example_book_def)
  have rnd: "price_to_precision (example_co 2 example_book) ''BTC/USDT:USDT''
               (min (32 / 3) (11 * (105 / 100))) = 1067 / 100"
      "price_to_precision (example_co 2 example_book) ''BTC/USDT:USDT''
               (max (25 / 3) (8 * (95 / 100))) = 833 / 100"
    by (simp_all add: example_co_def round_decimal_places_def)
  have b: "get_dry_market_fill_price example_exchange (example_co 2 example_book)
      ''BTC/USDT:USDT'' ''buy'' 3 11 (Some example_book) = Inr (1067 / 100)"
    using buy has hyps cv rnd by simp
  have sl: "get_dry_market_fill_price example_exchange (example_co 2 example_book)
      ''BTC/USDT:USDT'' ''sell'' 3 8 (Some example_book) = Inr (833 / 100)"
    using sell has hyps cv rnd by simp
  have closed: "order_status ?ord = ''closed''"
    using buy has create by simp
  show ?thesis
    using b sl create fee cv closed by auto
qed

text \<open>
  The claim as stated bounds the returned price of a buy by \<open>r * 1.05\<close>. The price is
  rounded after the clamp: at two decimal places and \<open>r = 10.11\<close> the cap \<open>10.6155\<close> is
  returned as \<open>10.62\<close>.
\<close>

theorem dry_market_fill_price_rounding_counterexample:
  "get_dry_market_fill_price example_exchange (example_co 2 example_book) ''BTC/USDT:USDT''
      ''buy'' 3 (1011 / 100) (Some example_book) = Inr (1062 / 100)
   \<and> (1011 / 100) * (105 / 100) < (1062 / 100 :: real)"
  by (simp add: get_dry_market_fill_price_def book_side_def example_exchange_def
        example_co_def example_book_def round_decimal_places_def Let_def)

text \<open>
  C9. When the amount exceeds the total volume of the walked side, every level is
  consumed in full and the remainder \<open>A - \<Sum>v\<close> is priced at the last level's price;
  that sum is divided by the amount, clamped and rounded, and the call returns a price.
\<close>

theorem dry_market_fill_price_short_book:
  assumes "exchange_has ex ''fetchL2OrderBook''"
    and "book_ok (book_side side ob)" and "sum_list (map snd (book_side side ob)) < A"
  shows "walk_book A 0 0 (book_side side ob) =
           (\<Sum>(p, v) \<leftarrow> book_side side ob. p * v)
             + (A - sum_list (map snd (book_side side ob))) * last_price (book_side side ob)
       \<and> get_dry_market_fill_price ex co pair side A r (Some ob) =
           Inr (price_to_precision co pair
                  (slippage_clamp side r
                     (((\<Sum>(p, v) \<leftarrow> book_side side ob. p * v)
                        + (A - sum_list (map snd (book_side side ob)))
                            * last_price (book_side side ob)) / A)))"
proof -
  let ?b = "book_side side ob"
  have w: "walk_book A 0 0 ?b =
             (\<Sum>(p, v) \<leftarrow> ?b. p * v) + (A - sum_list (map snd ?b)) * last_price ?b"
    using walk_book_short [of ?b A 0 0] assms by (simp add: last_price_def)
  have tot: "0 \<le> sum_list (map snd ?b)"
    using assms(2) by (rule book_volume_nonneg)
  have pos: "0 < A" using assms(3) tot by simp
  have nn: "0 \<le> (\<Sum>(p, v) \<leftarrow> ?b. p * v) + (A - sum_list (map snd ?b)) * last_price ?b"
    using book_value_nonneg [OF assms(2)] last_price_nonneg [OF assms(2)] assms(3)
    by (intro add_nonneg_nonneg mult_nonneg_nonneg) simp_all
  have "get_dry_market_fill_price ex co pair side A r (Some ob) =
           Inr (price_to_precision co pair
                  (slippage_clamp side r (max (walk_book A 0 0 ?b) 0 / A)))"
    using assms(1) pos by (intro get_dry_market_fill_price_walk) simp_all
  then have "get_dry_market_fill_price ex co pair side A r (Some ob) =
           Inr (price_to_precision co pair
                  (slippage_clamp side r
                     (((\<Sum>(p, v) \<leftarrow> ?b. p * v)
                        + (A - sum_list (map snd ?b)) * last_price ?b) / A)))"
    unfolding w using nn by (simp add: max_absorb1)
  with w show ?thesis by simp
qed

theorem dry_market_fill_price_short_book_witness:
  "walk_book 10 0 0 (asks example_book) = 92 + (10 - 8) * 12
   \<and> get_dry_market_fill_price example_exchange (example_co 2 example_book) ''BTC/USDT:USDT''
       ''buy'' 10 20 (Some example_book) = Inr (116 / 10)"
  using dry_market_fill_price_short_book
          [of example_exchange "''buy''" example_book 10 "example_co 2 example_book"
              "''BTC/USDT:USDT''" 20]
  by (simp add: example_exchange_def book_ok_def book_side_def example_book_def
        last_price_def slippage_clamp_def example_co_def round_decimal_places_def)

subsection \<open>Stake amount limits\<close>









subsection \<open>Funding fees\<close>

lemma foldl_nan_add:
  "\<forall>c \<in> set xs. c \<noteq> None \<Longrightarrow> foldl nan_add (Some a) xs = Some (a + sum_list (map cell xs))"
  by (induction xs arbitrary: a) (auto simp: nan_add_def cell_def)

lemma py_sum_Some: "\<forall>c \<in> set xs. c \<noteq> None \<Longrightarrow> py_sum xs = Some (sum_list (map cell xs))"
  using foldl_nan_add [of xs 0] by (simp add: py_sum_def)

lemma merge_left_per_mark:
  "set (case filter (\<lambda>f. candle_date f = candle_date m) funding of
          [] \<Rightarrow> [merge_row m None]
        | fs \<Rightarrow> map (\<lambda>f. merge_row m (candle_open f)) fs) =
     (if \<forall>f \<in> set funding. candle_date f \<noteq> candle_date m then {merge_row m None}
      else {merge_row m (candle_open f) | f. f \<in> set funding \<and> candle_date f = candle_date m})"
proof (cases "filter (\<lambda>f. candle_date f = candle_date m) funding")
  case Nil
  then have "\<forall>f \<in> set funding. candle_date f \<noteq> candle_date m"
    by (simp add: filter_empty_conv)
  with Nil show ?thesis by simp
next
  case (Cons a as)
  then have "a \<in> set (filter (\<lambda>f. candle_date f = candle_date m) funding)"
    by simp
  then have ex: "\<not> (\<forall>f \<in> set funding. candle_date f \<noteq> candle_date m)"
    by auto
  have rows: "set (map (\<lambda>f. merge_row m (candle_open f)) (a # as)) =
          {merge_row m (candle_open f) | f. f \<in> set funding \<and> candle_date f = candle_date m}"
    unfolding Cons [symmetric] by auto
  have "(if \<forall>f \<in> set funding. candle_date f \<noteq> candle_date m then {merge_row m None}
         else {merge_row m (candle_open f) | f.
                 f \<in> set funding \<and> candle_date f = candle_date m}) =
        {merge_row m (candle_open f) | f. f \<in> set funding \<and> candle_date f = candle_date m}"
    using ex by auto
  then show ?thesis
    unfolding Cons list.case using rows by simp
qed

lemma set_merge_left:
  "set (merge_left mark funding) =
     {merge_row m (candle_open f) | m f.
        m \<in> set mark \<and> f \<in> set funding \<and> candle_date f = candle_date m}
     \<union> {merge_row m None | m.
        m \<in> set mark \<and> (\<forall>f \<in> set funding. candle_date f \<noteq> candle_date m)}"
  unfolding merge_left_def set_concat set_map image_image merge_left_per_mark
  by (auto split: if_splits)

lemma fillna_None: "fillna rate None = Some rate"
  by (simp add: fillna_def)

lemma merge_row_fill:
  "(merge_row m c)\<lparr>open_fund := fillna rate (open_fund (merge_row m c))\<rparr>
     = merge_row m (fillna rate c)"
  by (simp add: merge_row_def)

lemma left_rows:
  "set (combine_funding_and_mark funding mark (Some rate)) =
     {merge_row m (fillna rate (candle_open f)) | m f.
        m \<in> set mark \<and> f \<in> set funding \<and> candle_date f = candle_date m}
     \<union> {merge_row m (Some rate) | m.
        m \<in> set mark \<and> (\<forall>f \<in> set funding. candle_date f \<noteq> candle_date m)}"
  (is "_ = ?C \<union> ?D")
proof (cases "funding = []")
  case True
  then show ?thesis by (auto simp: combine_funding_and_mark_def)
next
  case False
  let ?g = "\<lambda>row. row\<lparr>open_fund := fillna rate (open_fund row)\<rparr>"
  let ?A = "{merge_row m (candle_open f) | m f.
              m \<in> set mark \<and> f \<in> set funding \<and> candle_date f = candle_date m}"
  let ?B = "{merge_row m None | m.
              m \<in> set mark \<and> (\<forall>f \<in> set funding. candle_date f \<noteq> candle_date m)}"
  have g: "?g (merge_row m c) = merge_row m (fillna rate c)" for m c
    by (rule merge_row_fill)
  have A: "?g ` ?A = ?C"
  proof (intro set_eqI iffI)
    fix x assume "x \<in> ?g ` ?A"
    then obtain m f where "m \<in> set mark" "f \<in> set funding" "candle_date f = candle_date m"
        "x = ?g (merge_row m (candle_open f))"
      by blast
    then show "x \<in> ?C" unfolding g by blast
  next
    fix x assume "x \<in> ?C"
    then obtain m f where mf: "m \<in> set mark" "f \<in> set funding" "candle_date f = candle_date m"
        and "x = merge_row m (fillna rate (candle_open f))"
      by blast
    then have "x = ?g (merge_row m (candle_open f))" unfolding g by simp
    moreover have "merge_row m (candle_open f) \<in> ?A" using mf by blast
    ultimately show "x \<in> ?g ` ?A" by (rule image_eqI)
  qed
  have B: "?g ` ?B = ?D"
  proof (intro set_eqI iffI)
    fix x assume "x \<in> ?g ` ?B"
    then obtain m where "m \<in> set mark" "\<forall>f \<in> set funding. candle_date f \<noteq> candle_date m"
        "x = ?g (merge_row m None)"
      by blast
    then show "x \<in> ?D" unfolding g fillna_None by blast
  next
    fix x assume "x \<in> ?D"
    then obtain m where m: "m \<in> set mark" "\<forall>f \<in> set funding. candle_date f \<noteq> candle_date m"
        and "x = merge_row m (Some rate)"
      by blast
    then have "x = ?g (merge_row m None)" unfolding g fillna_None by simp
    moreover have "merge_row m None \<in> ?B" using m by blast
    ultimately show "x \<in> ?g ` ?B" by (rule image_eqI)
  qed
  have "set (combine_funding_and_mark funding mark (Some rate)) = ?g ` set (merge_left mark funding)"
    using False by (simp add: combine_funding_and_mark_def)
  also have "\<dots> = ?g ` ?A \<union> ?g ` ?B"
    unfolding set_merge_left image_Un ..
  finally show ?thesis unfolding A B .
qed


lemma foldl_nan_add_None: "foldl nan_add None xs = None"
  by (induction xs) (simp_all add: nan_add_def)

lemma foldl_nan_add_has_None: "None \<in> set xs \<Longrightarrow> foldl nan_add a xs = None"
  by (induction xs arbitrary: a) (auto simp: nan_add_def foldl_nan_add_None split: option.splits)

text \<open>
  C7 (amended). When no cell of a row dated inside \<open>[open_date, close_date]\<close> is NaN,
  the fee is the sum of \<open>open_mark * open_fund * amount\<close> over exactly the rows dated
  in that closed interval, returned as it is for a short and negated for a long; when
  such a row has a NaN cell the fee is \<open>0\<close>. Without a fallback funding rate the tables
  are joined on the date with an inner join; with one, every mark row is kept, and a
  funding rate that is missing or NaN is the fallback while any other is kept.
\<close>

theorem funding_fees_sum:
  "calculate_funding_fees df amount is_short open_date close_date =
     (if \<forall>row \<in> set df. open_date \<le> row_date row \<and> row_date row \<le> close_date
           \<longrightarrow> open_mark row \<noteq> None \<and> open_fund row \<noteq> None
      then (if is_short then 1 else - 1)
             * (\<Sum>row \<leftarrow> filter (\<lambda>row. open_date \<le> row_date row \<and> row_date row \<le> close_date) df.
                  the (open_mark row) * the (open_fund row) * amount)
      else 0)
   \<and> set (combine_funding_and_mark funding mark None) =
       {\<lparr>row_date = candle_date m, open_mark = candle_open m, open_fund = candle_open f\<rparr>
          | m f. m \<in> set mark \<and> f \<in> set funding \<and> candle_date f = candle_date m}
   \<and> set (combine_funding_and_mark funding mark (Some rate)) =
       {\<lparr>row_date = candle_date m, open_mark = candle_open m,
          open_fund = Some (case candle_open f of None \<Rightarrow> rate | Some v \<Rightarrow> v)\<rparr>
          | m f. m \<in> set mark \<and> f \<in> set funding \<and> candle_date f = candle_date m}
       \<union> {\<lparr>row_date = candle_date m, open_mark = candle_open m, open_fund = Some rate\<rparr>
          | m. m \<in> set mark \<and> (\<forall>f \<in> set funding. candle_date f \<noteq> candle_date m)}"
proof -
  let ?in = "\<lambda>row. open_date \<le> row_date row \<and> row_date row \<le> close_date"
  let ?df1 = "filter ?in df"
  let ?cells = "map (\<lambda>row. nan_mult (nan_mult (open_fund row) (open_mark row)) (Some amount)) ?df1"
  have fees: "calculate_funding_fees df amount is_short open_date close_date =
     (if \<forall>row \<in> set df. ?in row \<longrightarrow> open_mark row \<noteq> None \<and> open_fund row \<noteq> None
      then (if is_short then 1 else - 1)
             * (\<Sum>row \<leftarrow> ?df1. the (open_mark row) * the (open_fund row) * amount)
      else 0)"
  proof (cases "\<forall>row \<in> set df. ?in row \<longrightarrow> open_mark row \<noteq> None \<and> open_fund row \<noteq> None")
    case True
    have ok: "\<forall>c \<in> set ?cells. c \<noteq> None"
      using True by (auto simp: nan_mult_def)
    have val: "map cell ?cells
                 = map (\<lambda>row. the (open_mark row) * the (open_fund row) * amount) ?df1"
      using True by (auto simp: nan_mult_def cell_def)
    have "py_sum ?cells = Some (sum_list (map cell ?cells))"
      using ok by (rule py_sum_Some)
    then have s: "py_sum ?cells
               = Some (\<Sum>row \<leftarrow> ?df1. the (open_mark row) * the (open_fund row) * amount)"
      by (simp only: val)
    show ?thesis
    proof (cases "df = []")
      case Nil: True
      then show ?thesis by (simp add: calculate_funding_fees_def)
    next
      case False
      then show ?thesis
        using s True by (simp add: calculate_funding_fees_def Let_def conj_commute)
    qed
  next
    case False
    then obtain row where row: "row \<in> set df" "?in row"
        "open_mark row = None \<or> open_fund row = None"
      by auto
    then have "nan_mult (nan_mult (open_fund row) (open_mark row)) (Some amount) = None"
      by (auto simp: nan_mult_def split: option.splits)
    moreover have "row \<in> set ?df1" using row by simp
    ultimately have "None \<in> set ?cells"
      by (metis (no_types, lifting) image_eqI set_map)
    then have "py_sum ?cells = None"
      unfolding py_sum_def by (rule foldl_nan_add_has_None)
    moreover have "df \<noteq> []" using row by auto
    ultimately have "calculate_funding_fees df amount is_short open_date close_date = 0"
      by (simp add: calculate_funding_fees_def Let_def conj_commute)
    then show ?thesis
      by (simp only: if_not_P [OF False])
  qed
  have inner: "set (combine_funding_and_mark funding mark None) =
       {\<lparr>row_date = candle_date m, open_mark = candle_open m, open_fund = candle_open f\<rparr>
          | m f. m \<in> set mark \<and> f \<in> set funding \<and> candle_date f = candle_date m}"
    by (auto simp: combine_funding_and_mark_def merge_inner_def merge_row_def)
  have fill: "fillna rate c = Some (case c of None \<Rightarrow> rate | Some v \<Rightarrow> v)" for c
    by (simp add: fillna_def split: option.splits)
  have left: "set (combine_funding_and_mark funding mark (Some rate)) =
       {\<lparr>row_date = candle_date m, open_mark = candle_open m,
          open_fund = Some (case candle_open f of None \<Rightarrow> rate | Some v \<Rightarrow> v)\<rparr>
          | m f. m \<in> set mark \<and> f \<in> set funding \<and> candle_date f = candle_date m}
       \<union> {\<lparr>row_date = candle_date m, open_mark = candle_open m, open_fund = Some rate\<rparr>
          | m. m \<in> set mark \<and> (\<forall>f \<in> set funding. candle_date f \<noteq> candle_date m)}"
    using left_rows [of funding mark rate] unfolding fill merge_row_def by simp
  show ?thesis
    using fees inner left by blast
qed


theorem funding_fees_sum_witness:
  "calculate_funding_fees (combine_funding_and_mark example_funding example_mark None)
      2 True 8 24 = 110 * (2 / 1000) * 2 + 130 * (- 1 / 1000) * 2
   \<and> calculate_funding_fees (combine_funding_and_mark example_funding example_mark None)
       2 False 8 24 = - (110 * (2 / 1000) * 2 + 130 * (- 1 / 1000) * 2)
   \<and> calculate_funding_fees (combine_funding_and_mark nan_funding example_mark None)
       2 True 8 24 = 0
   \<and> combine_funding_and_mark example_funding example_mark None =
       [\<lparr>row_date = 0, open_mark = Some 100, open_fund = Some (1 / 1000)\<rparr>,
        \<lparr>row_date = 8, open_mark = Some 110, open_fund = Some (1 / 500)\<rparr>,
        \<lparr>row_date = 24, open_mark = Some 130, open_fund = Some (- (1 / 1000))\<rparr>]
   \<and> combine_funding_and_mark example_funding example_mark (Some (5 / 1000)) =
       [\<lparr>row_date = 0, open_mark = Some 100, open_fund = Some (1 / 1000)\<rparr>,
        \<lparr>row_date = 8, open_mark = Some 110, open_fund = Some (1 / 500)\<rparr>,
        \<lparr>row_date = 16, open_mark = Some 120, open_fund = Some (1 / 200)\<rparr>,
        \<lparr>row_date = 24, open_mark = Some 130, open_fund = Some (- (1 / 1000))\<rparr>]
   \<and> combine_funding_and_mark nan_funding example_mark (Some (5 / 1000)) =
       [\<lparr>row_date = 0, open_mark = Some 100, open_fund = Some (1 / 200)\<rparr>,
        \<lparr>row_date = 8, open_mark = Some 110, open_fund = Some (1 / 500)\<rparr>,
        \<lparr>row_date = 16, open_mark = Some 120, open_fund = Some (1 / 200)\<rparr>,
        \<lparr>row_date = 24, open_mark = Some 130, open_fund = Some (1 / 200)\<rparr>]"
proof -
  let ?df = "combine_funding_and_mark example_funding example_mark None"
  let ?nan = "combine_funding_and_mark nan_funding example_mark None"
  have df: "?df =
      [\<lparr>row_date = 0, open_mark = Some 100, open_fund = Some (1 / 1000)\<rparr>,
       \<lparr>row_date = 8, open_mark = Some 110, open_fund = Some (1 / 500)\<rparr>,
       \<lparr>row_date = 24, open_mark = Some 130, open_fund = Some (- (1 / 1000))\<rparr>]"
    by (simp add: combine_funding_and_mark_def merge_inner_def merge_row_def
          example_funding_def example_mark_def)
  have nan: "?nan =
      [\<lparr>row_date = 8, open_mark = Some 110, open_fund = Some (1 / 500)\<rparr>,
       \<lparr>row_date = 16, open_mark = Some 120, open_fund = None\<rparr>]"
    by (simp add: combine_funding_and_mark_def merge_inner_def merge_row_def
          nan_funding_def example_mark_def)
  have filled: "combine_funding_and_mark example_funding example_mark (Some (5 / 1000)) =
       [\<lparr>row_date = 0, open_mark = Some 100, open_fund = Some (1 / 1000)\<rparr>,
        \<lparr>row_date = 8, open_mark = Some 110, open_fund = Some (1 / 500)\<rparr>,
        \<lparr>row_date = 16, open_mark = Some 120, open_fund = Some (1 / 200)\<rparr>,
        \<lparr>row_date = 24, open_mark = Some 130, open_fund = Some (- (1 / 1000))\<rparr>]"
    by (simp add: combine_funding_and_mark_def merge_left_def merge_row_def fillna_def
          example_funding_def example_mark_def)
  have filled_nan: "combine_funding_and_mark nan_funding example_mark (Some (5 / 1000)) =
       [\<lparr>row_date = 0, open_mark = Some 100, open_fund = Some (1 / 200)\<rparr>,
        \<lparr>row_date = 8, open_mark = Some 110, open_fund = Some (1 / 500)\<rparr>,
        \<lparr>row_date = 16, open_mark = Some 120, open_fund = Some (1 / 200)\<rparr>,
        \<lparr>row_date = 24, open_mark = Some 130, open_fund = Some (1 / 200)\<rparr>]"
    by (simp add: combine_funding_and_mark_def merge_left_def merge_row_def fillna_def
          nan_funding_def example_mark_def)
  have short: "calculate_funding_fees ?df 2 True 8 24 =
                 110 * (2 / 1000) * 2 + 130 * (- 1 / 1000) * 2"
    using funding_fees_sum [where df = ?df and amount = 2 and is_short = True
            and open_date = 8 and close_date = 24
            and funding = example_funding and mark = example_mark and rate = 0,
            THEN conjunct1]
    unfolding df by (simp del: not_None_eq)
  have long: "calculate_funding_fees ?df 2 False 8 24 =
                 - (110 * (2 / 1000) * 2 + 130 * (- 1 / 1000) * 2)"
    using funding_fees_sum [where df = ?df and amount = 2 and is_short = False
            and open_date = 8 and close_date = 24
            and funding = example_funding and mark = example_mark and rate = 0,
            THEN conjunct1]
    unfolding df by (simp del: not_None_eq)
  have zero: "calculate_funding_fees ?nan 2 True 8 24 = 0"
    using funding_fees_sum [where df = ?nan and amount = 2 and is_short = True
            and open_date = 8 and close_date = 24
            and funding = example_funding and mark = example_mark and rate = 0,
            THEN conjunct1]
    unfolding nan by (simp del: not_None_eq)
  show ?thesis
    using short long zero filled filled_nan by (simp add: df)
qed

text \<open>
  The claim as stated makes the fee the sum over the rows of the interval for every
  table. With a NaN funding rate at date 16 the fee over \<open>[8, 24]\<close> is \<open>0\<close>, while the
  row at date 8 alone gives \<open>110 * 0.002 * 2\<close>.
\<close>

theorem funding_fees_nan_counterexample:
  "calculate_funding_fees (combine_funding_and_mark nan_funding example_mark None)
      2 True 8 24 = 0
   \<and> calculate_funding_fees (combine_funding_and_mark nan_funding example_mark None)
       2 True 8 8 = 110 * (2 / 1000) * 2
   \<and> (110 * (2 / 1000) * 2 :: real) \<noteq> 0"
  by (simp add: calculate_funding_fees_def combine_funding_and_mark_def merge_inner_def
        merge_row_def nan_funding_def example_mark_def py_sum_def nan_mult_def nan_add_def
        Let_def)

subsection \<open>Trade history\<close>

text \<open>
  C8 (amended). When the configured pagination is neither \<^verbatim>\<open>"time"\<close> nor
  \<^verbatim>\<open>"id"\<close>, a trade-history pull raises \<open>OperationalException\<close>, whatever the two
  paginated pulls would return.
\<close>

theorem trade_history_not_paginatable:
  assumes "trades_pagination ex \<noteq> ''time''" and "trades_pagination ex \<noteq> ''id''"
  shows "async_get_trade_history ex pulls ms pair since until from_id
           = Inl OperationalException
       \<and> get_historic_trades ex pulls ms pair since until from_id = Inl OperationalException"
  using assms by (simp add: async_get_trade_history_def get_historic_trades_def)

theorem trade_history_not_paginatable_witness:
  "get_historic_trades (example_exchange\<lparr>trades_pagination := ''cursor''\<rparr>)
      \<lparr>history_time = (\<lambda>pair since until. Inr (pair, [])),
       history_id = (\<lambda>pair since until from_id. Inr (pair, []))\<rparr>
      0 ''BTC/USDT:USDT'' 0 None None
     = (Inl OperationalException :: error + (string \<times> unit list))"
  using trade_history_not_paginatable
          [of "example_exchange\<lparr>trades_pagination := ''cursor''\<rparr>"
              "\<lparr>history_time = (\<lambda>pair since until. Inr (pair, [])),
                history_id = (\<lambda>pair since until from_id. Inr (pair, []))\<rparr>
               :: unit list trade_pulls"
              0 "''BTC/USDT:USDT''" 0 None None]
  by (simp add: example_exchange_def)

text \<open>
  The claim as stated names the error \<open>NotPaginatable\<close>. The source raises
  \<^verbatim>\<open>OperationalException\<close> there.
\<close>

theorem trade_history_error_counterexample:
  "get_historic_trades (example_exchange\<lparr>trades_pagination := ''cursor''\<rparr>)
      \<lparr>history_time = (\<lambda>pair since until. Inr (pair, [])),
       history_id = (\<lambda>pair since until from_id. Inr (pair, []))\<rparr>
      0 ''BTC/USDT:USDT'' 0 None None
     \<noteq> (Inl NotPaginatable :: error + (string \<times> unit list))"
  by (simp add: get_historic_trades_def async_get_trade_history_def example_exchange_def)

end
